theory Spec2Isabelle
  imports Complex_Main
begin

section \<open>Prima Scholar: excellence engine and prediction cache\<close>

text \<open>
  A shallow embedding of \<^verbatim>\<open>backend/models/excellence_engine.py\<close> and
  \<^verbatim>\<open>backend/services/prediction_service.py\<close>.

  Conventions of the embedding:
  \<^item> Python \<^verbatim>\<open>float\<close> values are exact reals: the theorems are about the arithmetic the
    code writes down, not about binary rounding. Python \<^verbatim>\<open>int\<close> values are \<open>int\<close>.
  \<^item> The \<^verbatim>\<open>student_data\<close> dictionary is a record of optional fields: \<open>None\<close> is an
    absent key, so that \<^verbatim>\<open>student_data.get(k, default)\<close> is \<open>dict_get\<close>.
  \<^item> A call that can raise returns \<open>string + 'a\<close>; \<open>Inl msg\<close> is the exception with
    \<^verbatim>\<open>str(e) = msg\<close>. A \<^verbatim>\<open>try/except Exception\<close> block is a case split on it.
  \<^item> The collaborators of the engine (database manager, helper methods whose bodies
    read or write the database, the clock) are not part of the arithmetic. The outcome
    of each of their calls is a parameter, collected in the record \<open>collab\<close>.
  \<^item> A leading underscore of a Python name is dropped.
\<close>

subsection \<open>Python helpers\<close>

definition dict_get :: "'a option \<Rightarrow> 'a \<Rightarrow> 'a" where
  "dict_get v dflt = (case v of None \<Rightarrow> dflt | Some x \<Rightarrow> x)"

text \<open>
  \<^verbatim>\<open>round(x, ndigits)\<close>: the nearest multiple of \<open>10 ^ -ndigits\<close>, a tie going to the
  even multiple.
\<close>

definition round_half_even :: "real \<Rightarrow> int" where
  "round_half_even x =
     (let f = \<lfloor>x\<rfloor>; d = x - of_int f
      in if d < 1 / 2 then f
         else if 1 / 2 < d then f + 1
         else if even f then f else f + 1)"

definition py_round :: "real \<Rightarrow> nat \<Rightarrow> real" where
  "py_round x ndigits = of_int (round_half_even (x * 10 ^ ndigits)) / 10 ^ ndigits"

subsection \<open>Data model\<close>

record session =
  session_quality_score :: "real option"
  query_sophistication :: "string option"

text \<open>
  The keys of \<^verbatim>\<open>student_data\<close> that the engine reads. \<open>other_keys\<close> lists any further keys
  of the dictionary: they only matter for its truth value (an empty dictionary is falsy).
\<close>

record student_data =
  current_gpa :: "real option"
  honors_courses :: "int option"
  gpa_trend :: "string option"
  academic_achievements :: "string list option"
  research_projects :: "int option"
  publications :: "int option"
  presentations :: "int option"
  mentorship_sessions :: "session list option"
  theoretical_frameworks_engaged :: "int option"
  elite_tier_documents :: "int option"
  leadership_roles :: "string list option"
  service_hours :: "real option"
  leadership_impact_score :: "real option"
  original_projects :: "int option"
  creative_works :: "int option"
  innovative_approaches_suggested :: "int option"
  academic_level :: "string option"
  profile_age_days :: "int option"
  other_keys :: "string list"

definition empty_dict :: student_data where
  "empty_dict =
     \<lparr>current_gpa = None, honors_courses = None, gpa_trend = None,
      academic_achievements = None, research_projects = None, publications = None,
      presentations = None, mentorship_sessions = None,
      theoretical_frameworks_engaged = None, elite_tier_documents = None,
      leadership_roles = None, service_hours = None, leadership_impact_score = None,
      original_projects = None, creative_works = None,
      innovative_approaches_suggested = None, academic_level = None,
      profile_age_days = None, other_keys = []\<rparr>"

record DistinctionRequirement =
  gpa_min :: real
  excellence_score_min :: real
  additional_requirements :: "string list"
  weight_factors :: "(string \<times> real) list"

record ExcellenceFactors =
  academic_performance :: real
  research_engagement :: real
  critical_thinking :: real
  leadership_service :: real
  innovation_creativity :: real

subsection \<open>Configuration tables of \<^verbatim>\<open>ExcellenceEngine.__init__\<close>\<close>

definition distinction_requirements :: "(string \<times> DistinctionRequirement) list" where
  "distinction_requirements =
     [(''Dean_List'',
        \<lparr>gpa_min = 35 / 10, excellence_score_min = 75,
         additional_requirements = [''top_15_percent'', ''full_time_enrollment''],
         weight_factors = [(''gpa'', 6 / 10), (''excellence'', 4 / 10)]\<rparr>),
      (''Magna_Cum_Laude'',
        \<lparr>gpa_min = 37 / 10, excellence_score_min = 85,
         additional_requirements = [''cumulative_gpa'', ''credit_hours_minimum''],
         weight_factors = [(''gpa'', 5 / 10), (''excellence'', 5 / 10)]\<rparr>),
      (''Summa_Cum_Laude'',
        \<lparr>gpa_min = 39 / 10, excellence_score_min = 95,
         additional_requirements = [''thesis_defense'', ''faculty_recommendation''],
         weight_factors = [(''gpa'', 4 / 10), (''excellence'', 6 / 10)]\<rparr>),
      (''Phi_Beta_Kappa'',
        \<lparr>gpa_min = 38 / 10, excellence_score_min = 90,
         additional_requirements = [''liberal_arts_focus'', ''character_assessment''],
         weight_factors = [(''gpa'', 45 / 100), (''excellence'', 55 / 100)]\<rparr>),
      (''Rhodes_Scholar'',
        \<lparr>gpa_min = 39 / 10, excellence_score_min = 98,
         additional_requirements =
           [''leadership_evidence'', ''athletic_achievement'', ''service_commitment''],
         weight_factors = [(''gpa'', 3 / 10), (''excellence'', 7 / 10)]\<rparr>),
      (''Fulbright_Scholar'',
        \<lparr>gpa_min = 38 / 10, excellence_score_min = 92,
         additional_requirements =
           [''research_proposal'', ''language_proficiency'', ''cultural_sensitivity''],
         weight_factors = [(''gpa'', 35 / 100), (''excellence'', 65 / 100)]\<rparr>)]"

definition factor_weights :: "(string \<times> real) list" where
  "factor_weights =
     [(''academic_performance'', 40 / 100),
      (''research_engagement'', 25 / 100),
      (''critical_thinking'', 20 / 100),
      (''leadership_service'', 10 / 100),
      (''innovation_creativity'', 5 / 100)]"

text \<open>\<^verbatim>\<open>d[k]\<close> on a dictionary with string keys: \<^verbatim>\<open>KeyError\<close> on a missing key.\<close>

definition dict_index :: "(string \<times> 'a) list \<Rightarrow> string \<Rightarrow> string + 'a" where
  "dict_index d k =
     (case map_of d k of None \<Rightarrow> Inl ([CHR 0x27] @ k @ [CHR 0x27]) | Some v \<Rightarrow> Inr v)"

subsection \<open>The five factors\<close>

definition calculate_academic_performance :: "student_data \<Rightarrow> real" where
  "calculate_academic_performance sd =
     (let gpa = dict_get (current_gpa sd) 0;
          base_score = min ((gpa / 4) * 100) 100;
          bonus = (0::int);
          bonus = (if dict_get (honors_courses sd) 0 > 0
                   then bonus + min (dict_get (honors_courses sd) 0 * 2) 10 else bonus);
          bonus = (if dict_get (gpa_trend sd) ''stable'' = ''improving'' then bonus + 5
                   else if dict_get (gpa_trend sd) ''stable'' = ''declining'' then bonus - 5
                   else bonus);
          achievements = dict_get (academic_achievements sd) [];
          bonus = bonus + min (int (length achievements) * 3) 15
      in min (base_score + of_int bonus) 100)"

definition calculate_research_engagement :: "student_data \<Rightarrow> real" where
  "calculate_research_engagement sd =
     (let base_score = (20::real);
          research_projects = dict_get (research_projects sd) 0;
          base_score = base_score + of_int (min (research_projects * 15) 40);
          publications = dict_get (publications sd) 0;
          presentations = dict_get (presentations sd) 0;
          base_score = base_score + of_int (min (publications * 20 + presentations * 10) 30);
          sessions_data = dict_get (mentorship_sessions sd) [];
          base_score =
            (if sessions_data \<noteq> []
             then let avg_quality =
                        sum_list (map (\<lambda>s. dict_get (session_quality_score s) 0) sessions_data)
                          / real (length sessions_data)
                  in base_score + min (avg_quality * 10) 10
             else base_score)
      in min base_score 100)"

definition sophistication_scores :: "(string \<times> real) list" where
  "sophistication_scores =
     [(''basic'', 10), (''intermediate'', 25), (''advanced'', 40), (''scholar'', 60)]"

definition calculate_critical_thinking_score :: "student_data \<Rightarrow> real" where
  "calculate_critical_thinking_score sd =
     (let base_score = (40::real);
          sessions = dict_get (mentorship_sessions sd) [];
          base_score =
            (if sessions \<noteq> []
             then let avg_sophistication =
                        foldl (\<lambda>acc session.
                                 acc + dict_get (map_of sophistication_scores
                                         (dict_get (query_sophistication session) ''basic'')) 10)
                              0 sessions;
                      avg_sophistication = avg_sophistication / real (length sessions)
                  in max base_score avg_sophistication
             else base_score);
          frameworks_used = dict_get (theoretical_frameworks_engaged sd) 0;
          base_score = base_score + of_int (min (frameworks_used * 3) 20);
          complex_docs = dict_get (elite_tier_documents sd) 0;
          base_score = base_score + of_int (min (complex_docs * 5) 15)
      in min base_score 100)"

definition calculate_leadership_score :: "student_data \<Rightarrow> real" where
  "calculate_leadership_score sd =
     (let base_score = (10::real);
          leadership_roles = dict_get (leadership_roles sd) [];
          base_score = base_score + of_int (min (int (length leadership_roles) * 15) 45);
          service_hours = dict_get (service_hours sd) 0;
          base_score = base_score + min (service_hours / 10) 25;
          leadership_impact = dict_get (leadership_impact_score sd) 0;
          base_score = base_score + min leadership_impact 20
      in min base_score 100)"

definition calculate_innovation_score :: "student_data \<Rightarrow> real" where
  "calculate_innovation_score sd =
     (let base_score = (30::real);
          original_projects = dict_get (original_projects sd) 0;
          base_score = base_score + of_int (min (original_projects * 10) 30);
          creative_works = dict_get (creative_works sd) 0;
          base_score = base_score + of_int (min (creative_works * 15) 25);
          innovative_solutions = dict_get (innovative_approaches_suggested sd) 0;
          base_score = base_score + of_int (min (innovative_solutions * 2) 15)
      in min base_score 100)"

definition calculate_excellence_factors :: "student_data \<Rightarrow> ExcellenceFactors" where
  "calculate_excellence_factors sd =
     \<lparr>academic_performance = calculate_academic_performance sd,
      research_engagement = calculate_research_engagement sd,
      critical_thinking = calculate_critical_thinking_score sd,
      leadership_service = calculate_leadership_score sd,
      innovation_creativity = calculate_innovation_score sd\<rparr>"

subsection \<open>Collaborators\<close>

text \<open>
  One row of \<^verbatim>\<open>SELECT excellence_score, trajectory_date FROM excellence_trajectory\<close>; the
  date is kept as its ISO text.
\<close>

record trajectory_row =
  row_excellence_score :: real
  row_trajectory_date :: string

text \<open>
  The dictionary \<^verbatim>\<open>prediction_result\<close> built by \<^verbatim>\<open>predict_distinction_probability\<close>;
  its key \<^verbatim>\<open>current_gpa\<close> is the field \<open>current_gpa_out\<close>, the other fields bear the
  names of their keys. A date is kept as its ISO text.
\<close>

record prediction_result =
  distinction :: string
  probability :: real
  confidence :: real
  current_excellence_score :: real
  required_excellence_score :: real
  current_gpa_out :: real
  required_gpa :: real
  gap :: real
  improvement_factors :: "(string \<times> string) list list"
  estimated_achievement_date :: "string option"
  trajectory_factor :: real
  key_factors :: "string list"
  calculated_at :: string

text \<open>
  The outcome of every call that leaves the engine's arithmetic. The bodies of these
  methods are database plumbing; what the engine does with their result (or with the
  exception they raise) is in the functions below. The two writers return \<open>Inr ok\<close> when
  they return at all, \<open>ok\<close> telling whether the write went through (as
  \<^verbatim>\<open>DatabaseManager.update_excellence_score\<close> does); the engine discards that value.
\<close>

record collab =
  get_comprehensive_student_data :: "string \<Rightarrow> string + student_data option"
  update_excellence_score_in_db :: "string \<Rightarrow> real \<Rightarrow> ExcellenceFactors \<Rightarrow> string + bool"
  execute_query :: "string \<Rightarrow> string + trajectory_row list"
  identify_improvement_factors ::
    "student_data \<Rightarrow> string \<Rightarrow> string + (string \<times> string) list list"
  estimate_achievement_timeline ::
    "string \<Rightarrow> string \<Rightarrow> real \<Rightarrow> real \<Rightarrow> string + string option"
  get_key_success_factors :: "string \<Rightarrow> string + string list"
  store_prediction_in_db :: "string \<Rightarrow> prediction_result \<Rightarrow> string + bool"

subsection \<open>\<^verbatim>\<open>calculate_excellence_score\<close>\<close>

text \<open>
  Modelled from the spec: the body of \<^verbatim>\<open>_get_level_multiplier\<close>, which the method calls
  and which is not part of the source files. "Level multiplier by academic_level:
  undergraduate 1.0, graduate 1.3, doctoral 1.6, postdoc 2.0 (unknown level defaults to
  1.0)"; these are also the \<^verbatim>\<open>complexity_multiplier\<close> values of \<^verbatim>\<open>config.py\<close>.
\<close>

definition get_level_multiplier :: "string \<Rightarrow> real" where
  "get_level_multiplier level =
     dict_get (map_of [(''undergraduate'', 1), (''graduate'', 13 / 10),
                       (''doctoral'', 16 / 10), (''postdoc'', 2)] level) 1"

text \<open>
  The two dictionaries the method returns: the result, with the keys
  \<^verbatim>\<open>excellence_score\<close>, \<^verbatim>\<open>factors\<close>, \<^verbatim>\<open>level_multiplier\<close>, \<^verbatim>\<open>calculated_at\<close>, and the error
  dictionary, with the keys \<^verbatim>\<open>error\<close> and \<^verbatim>\<open>score\<close>.
\<close>

datatype score_dict =
    ScoreResult real ExcellenceFactors real string
  | ScoreError string real

text \<open>Python truth value of \<^verbatim>\<open>student_data\<close>: \<^verbatim>\<open>None\<close> and the empty dictionary are falsy.\<close>

definition truthy :: "student_data option \<Rightarrow> bool" where
  "truthy sd = (case sd of None \<Rightarrow> False | Some d \<Rightarrow> d \<noteq> empty_dict)"

text \<open>
  \<^verbatim>\<open>self.factor_weights[k]\<close>; the method uses the five keys of the table only, so the
  look-up never fails.
\<close>

definition weight :: "string \<Rightarrow> real" where
  "weight k = dict_get (map_of factor_weights k) 0"

definition weighted_total :: "ExcellenceFactors \<Rightarrow> real" where
  "weighted_total f =
     academic_performance f * weight ''academic_performance'' +
     research_engagement f * weight ''research_engagement'' +
     critical_thinking f * weight ''critical_thinking'' +
     leadership_service f * weight ''leadership_service'' +
     innovation_creativity f * weight ''innovation_creativity''"

definition round_factors :: "ExcellenceFactors \<Rightarrow> ExcellenceFactors" where
  "round_factors f =
     \<lparr>academic_performance = py_round (academic_performance f) 2,
      research_engagement = py_round (research_engagement f) 2,
      critical_thinking = py_round (critical_thinking f) 2,
      leadership_service = py_round (leadership_service f) 2,
      innovation_creativity = py_round (innovation_creativity f) 2\<rparr>"

text \<open>
  \<open>now\<close> is the reading of \<^verbatim>\<open>datetime.now().isoformat()\<close>. Every exception raised inside
  the \<^verbatim>\<open>try\<close> block ends in \<^verbatim>\<open>{'error': str(e), 'score': 0}\<close>.
\<close>

definition calculate_excellence_score ::
    "collab \<Rightarrow> string \<Rightarrow> string \<Rightarrow> student_data option \<Rightarrow> score_dict" where
  "calculate_excellence_score env now student_id student_data =
     (case (if \<not> truthy student_data
            then get_comprehensive_student_data env student_id
            else Inr student_data) of
        Inl e \<Rightarrow> ScoreError e 0
      | Inr student_data \<Rightarrow>
          (if \<not> truthy student_data then ScoreError ''Student data not found'' 0
           else
             (let sd = the student_data;
                  factors = calculate_excellence_factors sd;
                  total_score = weighted_total factors;
                  level_multiplier =
                    get_level_multiplier (dict_get (academic_level sd) ''undergraduate'');
                  final_score = min (total_score * level_multiplier) 100
              in (case update_excellence_score_in_db env student_id final_score factors of
                    Inl e \<Rightarrow> ScoreError e 0
                  | Inr _ \<Rightarrow>
                      ScoreResult (py_round final_score 2) (round_factors factors)
                        level_multiplier now))))"

text \<open>\<^verbatim>\<open>excellence_data.get('excellence_score', 0)\<close>\<close>

definition get_excellence_score :: "score_dict \<Rightarrow> real" where
  "get_excellence_score excellence_data =
     (case excellence_data of ScoreResult s _ _ _ \<Rightarrow> s | ScoreError _ _ \<Rightarrow> 0)"

subsection \<open>\<^verbatim>\<open>_analyze_improvement_trajectory\<close>\<close>

definition np_arange :: "nat \<Rightarrow> real list" where
  "np_arange n = map real [0..<n]"

text \<open>
  \<^verbatim>\<open>np.polyfit(x, y, 1)\<close> is numpy's least-squares fit of a line; it returns the array
  \<^verbatim>\<open>[slope, intercept]\<close>. It is a library routine, embedded here by the solution of the
  normal equations. Lemma \<open>polyfit_least_squares\<close> below shows that, on the abscissae
  \<open>0, 1, ..., n - 1\<close> with \<open>n \<ge> 2\<close>, this line has the least sum of squared residuals
  among all lines, and lemma \<open>least_squares_unique\<close> that no other line has.
\<close>

definition polyfit1 :: "real list \<Rightarrow> real list \<Rightarrow> real list" where
  "polyfit1 x y =
     (let n = real (length x);
          sx = sum_list x;
          sy = sum_list y;
          sxy = sum_list (map2 (*) x y);
          sxx = sum_list (map2 (*) x x);
          slope = (n * sxy - sx * sy) / (n * sxx - sx * sx);
          intercept = (sy - slope * sx) / n
      in [slope, intercept])"

text \<open>
  \<open>execute_query env student_id\<close> is the outcome of the method's one query: the rows of
  the student, latest date first, at most ten. Any exception ends in the neutral \<open>0.5\<close>.
\<close>

definition analyze_improvement_trajectory :: "collab \<Rightarrow> string \<Rightarrow> real" where
  "analyze_improvement_trajectory env student_id =
     (case execute_query env student_id of
        Inl e \<Rightarrow> 1 / 2
      | Inr trajectory_data \<Rightarrow>
          if length trajectory_data < 2 then 1 / 2
          else
            (let scores = map row_excellence_score trajectory_data;
                 scores = rev scores;
                 x = np_arange (length scores);
                 coeffs = polyfit1 x scores;
                 slope = coeffs ! 0;
                 trajectory_factor = max 0 (min 1 (1 / 2 + slope / 20))
             in trajectory_factor))"

subsection \<open>\<^verbatim>\<open>_calculate_prediction_confidence\<close>\<close>

text \<open>
  \<^verbatim>\<open>if student_data.get(field)\<close>: an absent key, a zero and an empty list are falsy.
\<close>

definition truthy_num :: "'a::zero option \<Rightarrow> bool" where
  "truthy_num v = (case v of None \<Rightarrow> False | Some x \<Rightarrow> x \<noteq> 0)"

definition truthy_list :: "'a list option \<Rightarrow> bool" where
  "truthy_list v = (case v of None \<Rightarrow> False | Some xs \<Rightarrow> xs \<noteq> [])"

definition calculate_prediction_confidence :: "student_data \<Rightarrow> string \<Rightarrow> real" where
  "calculate_prediction_confidence sd distinction' =
     (let base_confidence = (70::real);
          data_fields =
            [truthy_num (current_gpa sd), truthy_list (mentorship_sessions sd),
             truthy_list (academic_achievements sd), truthy_num (research_projects sd),
             truthy_list (leadership_roles sd)];
          completeness = real (length (filter id data_fields)) / real (length data_fields);
          base_confidence = base_confidence + completeness * 20;
          sessions_count = length (dict_get (mentorship_sessions sd) []);
          base_confidence =
            (if sessions_count \<ge> 10 then base_confidence + 10
             else if sessions_count \<ge> 5 then base_confidence + 5
             else base_confidence);
          base_confidence =
            (if dict_get (profile_age_days sd) 0 \<ge> 90 then base_confidence + 5
             else base_confidence)
      in min base_confidence 95)"

subsection \<open>\<^verbatim>\<open>predict_distinction_probability\<close>\<close>

text \<open>
  \<open>now_score\<close> is the clock reading inside the nested \<^verbatim>\<open>calculate_excellence_score\<close>,
  \<open>now\<close> the one that fills \<^verbatim>\<open>calculated_at\<close>. The method returns either the
  dictionary \<^verbatim>\<open>{'error': msg}\<close>, here \<open>Inl msg\<close>, or the prediction. Every exception
  raised inside its \<^verbatim>\<open>try\<close> block ends in \<^verbatim>\<open>{'error': str(e)}\<close>: a collaborator that
  raises, a missing weight, a division by a zero threshold (which no entry of the
  present table has).
\<close>

definition predict_distinction_probability ::
    "collab \<Rightarrow> string \<Rightarrow> string \<Rightarrow> string \<Rightarrow> string \<Rightarrow> string + prediction_result" where
  "predict_distinction_probability env now_score now student_id distinction' =
     (case map_of distinction_requirements distinction' of
        None \<Rightarrow> Inl (''Unknown distinction: '' @ distinction')
      | Some requirement \<Rightarrow>
     (case get_comprehensive_student_data env student_id of
        Inl e \<Rightarrow> Inl e
      | Inr student_data \<Rightarrow>
     if \<not> truthy student_data then Inl ''Student data not found''
     else
       (let sd = the student_data;
            excellence_data = calculate_excellence_score env now_score student_id student_data;
            current_excellence = get_excellence_score excellence_data;
            current_gpa = dict_get (current_gpa sd) 0;
            gpa_factor = (if gpa_min requirement > 0
                          then min (current_gpa / gpa_min requirement) 1 else 1)
        in
     if excellence_score_min requirement = 0 then Inl ''division by zero''
     else
       (let excellence_factor = min (current_excellence / excellence_score_min requirement) 1
        in
     (case dict_index (weight_factors requirement) ''gpa'' of
        Inl e \<Rightarrow> Inl e
      | Inr w_gpa \<Rightarrow>
     (case dict_index (weight_factors requirement) ''excellence'' of
        Inl e \<Rightarrow> Inl e
      | Inr w_excellence \<Rightarrow>
       (let base_probability = (gpa_factor * w_gpa + excellence_factor * w_excellence) * 100;
            trajectory_factor = analyze_improvement_trajectory env student_id;
            trajectory_adjusted = base_probability * (7 / 10 + trajectory_factor * (3 / 10));
            confidence = calculate_prediction_confidence sd distinction';
            final_probability = min trajectory_adjusted 95
        in
     (case identify_improvement_factors env sd distinction' of
        Inl e \<Rightarrow> Inl e
      | Inr improvement_factors' \<Rightarrow>
     (case estimate_achievement_timeline env student_id distinction' current_excellence
             (excellence_score_min requirement) of
        Inl e \<Rightarrow> Inl e
      | Inr estimated_date \<Rightarrow>
     (case get_key_success_factors env distinction' of
        Inl e \<Rightarrow> Inl e
      | Inr key_factors' \<Rightarrow>
       (let prediction_result =
              \<lparr>distinction = distinction',
               probability = py_round final_probability 1,
               confidence = py_round confidence 1,
               current_excellence_score = current_excellence,
               required_excellence_score = excellence_score_min requirement,
               current_gpa_out = current_gpa,
               required_gpa = gpa_min requirement,
               gap = max 0 (excellence_score_min requirement - current_excellence),
               improvement_factors = improvement_factors',
               estimated_achievement_date = estimated_date,
               trajectory_factor = py_round trajectory_factor 2,
               key_factors = key_factors',
               calculated_at = now\<rparr>
        in
     (case store_prediction_in_db env student_id prediction_result of
        Inl e \<Rightarrow> Inl e
      | Inr _ \<Rightarrow> Inr prediction_result))))))))))))"

subsection \<open>\<^verbatim>\<open>PredictionService\<close>: the Redis cache\<close>

text \<open>
  The Redis client and the \<^verbatim>\<open>json\<close> module are collaborators: \<open>'r\<close> is the state of the
  Redis server as the client sees it, \<open>redis_get\<close> and \<open>redis_setex\<close> are the outcomes of
  \<^verbatim>\<open>redis_client.get\<close> and \<^verbatim>\<open>redis_client.setex\<close> (an exception, or the reply and the new
  state), \<open>json_loads\<close> and \<open>json_dumps\<close> those of \<^verbatim>\<open>json.loads\<close> and \<^verbatim>\<open>json.dumps\<close>.
\<close>

record 'r redis_client =
  redis_get :: "'r \<Rightarrow> string \<Rightarrow> string + string option"
  redis_setex :: "'r \<Rightarrow> string \<Rightarrow> int \<Rightarrow> string \<Rightarrow> string + 'r"
  json_loads :: "string \<Rightarrow> string + prediction_result"
  json_dumps :: "prediction_result \<Rightarrow> string + string"

record 'r PredictionService =
  cache_enabled :: bool
  client :: "'r redis_client"

text \<open>\<^verbatim>\<open>try: body except Exception as e: handler\<close>, for a body that may raise.\<close>

definition try_except :: "(string + 'a) \<Rightarrow> (string \<Rightarrow> string + 'a) \<Rightarrow> string + 'a" where
  "try_except body handler = (case body of Inl e \<Rightarrow> handler e | Inr v \<Rightarrow> Inr v)"

definition cache_key :: "string \<Rightarrow> string \<Rightarrow> string" where
  "cache_key student_id distinction' = ''prediction:'' @ student_id @ '':'' @ distinction'"

text \<open>
  Both methods return \<open>Inl e\<close> when an exception leaves the method and \<open>Inr\<close> of what
  they return (for the write: the state of the server afterwards) otherwise.
\<close>

definition get_cached_prediction ::
    "'r PredictionService \<Rightarrow> 'r \<Rightarrow> string \<Rightarrow> string \<Rightarrow> string + prediction_result option" where
  "get_cached_prediction self r student_id distinction' =
     (if \<not> cache_enabled self then Inr None
      else
        try_except
          (case redis_get (client self) r (cache_key student_id distinction') of
             Inl e \<Rightarrow> Inl e
           | Inr cached_data \<Rightarrow>
               (case cached_data of
                  None \<Rightarrow> Inr None
                | Some bytes \<Rightarrow>
                    if bytes \<noteq> []
                    then (case json_loads (client self) bytes of
                            Inl e \<Rightarrow> Inl e
                          | Inr v \<Rightarrow> Inr (Some v))
                    else Inr None))
          (\<lambda>e. Inr None))"

definition cache_prediction ::
    "'r PredictionService \<Rightarrow> 'r \<Rightarrow> string \<Rightarrow> string \<Rightarrow> prediction_result \<Rightarrow> int
       \<Rightarrow> string + 'r" where
  "cache_prediction self r student_id distinction' prediction ttl =
     (if \<not> cache_enabled self then Inr r
      else
        try_except
          (case json_dumps (client self) prediction of
             Inl e \<Rightarrow> Inl e
           | Inr text \<Rightarrow>
               redis_setex (client self) r (cache_key student_id distinction') ttl text)
          (\<lambda>e. Inr r))"

subsection \<open>Inputs and properties used in the theorems\<close>

text \<open>
  Metrics are valid when every numeric signal is non-negative: a grade point average,
  counts, hours and quality scores.
\<close>

definition valid_metrics :: "student_data \<Rightarrow> bool" where
  "valid_metrics sd \<longleftrightarrow>
     0 \<le> dict_get (current_gpa sd) 0 \<and>
     0 \<le> dict_get (honors_courses sd) 0 \<and>
     0 \<le> dict_get (research_projects sd) 0 \<and>
     0 \<le> dict_get (publications sd) 0 \<and>
     0 \<le> dict_get (presentations sd) 0 \<and>
     list_all (\<lambda>s. 0 \<le> dict_get (session_quality_score s) 0)
       (dict_get (mentorship_sessions sd) []) \<and>
     0 \<le> dict_get (theoretical_frameworks_engaged sd) 0 \<and>
     0 \<le> dict_get (elite_tier_documents sd) 0 \<and>
     0 \<le> dict_get (service_hours sd) 0 \<and>
     0 \<le> dict_get (leadership_impact_score sd) 0 \<and>
     0 \<le> dict_get (original_projects sd) 0 \<and>
     0 \<le> dict_get (creative_works sd) 0 \<and>
     0 \<le> dict_get (innovative_approaches_suggested sd) 0"

text \<open>A database in which every call returns normally and no student is stored.\<close>

definition quiet_db :: collab where
  "quiet_db =
     \<lparr>get_comprehensive_student_data = (\<lambda>_. Inr None),
      update_excellence_score_in_db = (\<lambda>_ _ _. Inr True),
      execute_query = (\<lambda>_. Inr []),
      identify_improvement_factors = (\<lambda>_ _. Inr []),
      estimate_achievement_timeline = (\<lambda>_ _ _ _. Inr None),
      get_key_success_factors = (\<lambda>_. Inr []),
      store_prediction_in_db = (\<lambda>_ _. Inr True)\<rparr>"

text \<open>The score write raises; the score write fails and the helper swallows it.\<close>

definition db_write_raises :: collab where
  "db_write_raises =
     quiet_db\<lparr>update_excellence_score_in_db := (\<lambda>_ _ _. Inl ''connection lost'')\<rparr>"

definition db_write_fails_silently :: collab where
  "db_write_fails_silently =
     quiet_db\<lparr>update_excellence_score_in_db := (\<lambda>_ _ _. Inr False)\<rparr>"

text \<open>\<^verbatim>\<open>{'current_gpa': 0.0, 'honors_courses': 0, 'gpa_trend': 'declining',
  'academic_achievements': []}\<close>\<close>

definition declining_zero_gpa :: student_data where
  "declining_zero_gpa =
     empty_dict\<lparr>current_gpa := Some 0, honors_courses := Some 0,
                gpa_trend := Some ''declining'', academic_achievements := Some []\<rparr>"

text \<open>Three mentorship sessions, of sophistication basic, scholar and scholar.\<close>

definition three_sessions :: student_data where
  "three_sessions =
     empty_dict\<lparr>mentorship_sessions :=
       Some [\<lparr>session_quality_score = None, query_sophistication = Some ''basic''\<rparr>,
             \<lparr>session_quality_score = None, query_sophistication = Some ''scholar''\<rparr>,
             \<lparr>session_quality_score = None, query_sophistication = Some ''scholar''\<rparr>]\<rparr>"

text \<open>
  Databases that hold that student, for a call that passes no \<^verbatim>\<open>student_data\<close> (as the
  routes do): the score write succeeds, raises, or fails and the helper swallows it.
\<close>

definition three_sessions_db :: collab where
  "three_sessions_db =
     quiet_db\<lparr>get_comprehensive_student_data := (\<lambda>_. Inr (Some three_sessions))\<rparr>"

definition three_sessions_db_write_raises :: collab where
  "three_sessions_db_write_raises =
     db_write_raises\<lparr>get_comprehensive_student_data := (\<lambda>_. Inr (Some three_sessions))\<rparr>"

definition three_sessions_db_write_fails_silently :: collab where
  "three_sessions_db_write_fails_silently =
     db_write_fails_silently\<lparr>get_comprehensive_student_data :=
       (\<lambda>_. Inr (Some three_sessions))\<rparr>"

text \<open>\<^verbatim>\<open>{'research_projects': -1, 'theoretical_frameworks_engaged': -1,
  'leadership_impact_score': -5.0, 'original_projects': -1}\<close>\<close>

definition negative_signals :: student_data where
  "negative_signals =
     empty_dict\<lparr>research_projects := Some (- 1),
                theoretical_frameworks_engaged := Some (- 1),
                leadership_impact_score := Some (- 5),
                original_projects := Some (- 1)\<rparr>"

text \<open>A student with a signal of every kind.\<close>

definition active_student :: student_data where
  "active_student =
     \<lparr>current_gpa = Some (37 / 10), honors_courses = Some 3, gpa_trend = Some ''improving'',
      academic_achievements = Some [''Dean list 2024''], research_projects = Some 2,
      publications = Some 1, presentations = Some 1,
      mentorship_sessions =
        Some [\<lparr>session_quality_score = Some (8 / 10),
               query_sophistication = Some ''advanced''\<rparr>],
      theoretical_frameworks_engaged = Some 4, elite_tier_documents = Some 2,
      leadership_roles = Some [''club president''], service_hours = Some 40,
      leadership_impact_score = Some 12, original_projects = Some 1,
      creative_works = Some 1, innovative_approaches_suggested = Some 3,
      academic_level = Some ''graduate'', profile_age_days = Some 120,
      other_keys = [''student_id'']\<rparr>"

text \<open>Databases that hold one student, whatever the identifier asked for.\<close>

definition active_student_db :: collab where
  "active_student_db =
     quiet_db\<lparr>get_comprehensive_student_data := (\<lambda>_. Inr (Some active_student))\<rparr>"

text \<open>\<^verbatim>\<open>{'current_gpa': -1.0}\<close>\<close>

definition negative_gpa :: student_data where
  "negative_gpa = empty_dict\<lparr>current_gpa := Some (- 1)\<rparr>"

definition negative_gpa_db :: collab where
  "negative_gpa_db =
     quiet_db\<lparr>get_comprehensive_student_data := (\<lambda>_. Inr (Some negative_gpa))\<rparr>"

text \<open>A Redis server that refuses every connection; its state is the list of entries.\<close>

definition redis_unreachable :: "(string \<times> string) list redis_client" where
  "redis_unreachable =
     \<lparr>redis_get = (\<lambda>_ _. Inl ''Connection refused''),
      redis_setex = (\<lambda>_ _ _ _. Inl ''Connection refused''),
      json_loads = (\<lambda>_. Inl ''Expecting value''),
      json_dumps = (\<lambda>_. Inr ''{}'')\<rparr>"

text \<open>A prediction to be cached.\<close>

definition sample_prediction :: prediction_result where
  "sample_prediction =
     \<lparr>distinction = ''Dean_List'', probability = 85, confidence = 95,
      current_excellence_score = 100, required_excellence_score = 75,
      current_gpa_out = 37 / 10, required_gpa = 35 / 10, gap = 0,
      improvement_factors = [], estimated_achievement_date = None,
      trajectory_factor = 1 / 2, key_factors = [],
      calculated_at = ''2026-01-01T00:00:00''\<rparr>"

subsection \<open>Ordinary least squares, in the words of the specification\<close>

text \<open>
  The sum of squared residuals of the line \<open>y = a + b \<sqdot> x\<close> over the pairs
  \<open>(index, score)\<close>, index \<open>0..n-1\<close>, earliest first; \<open>b\<close> is an ordinary-least-squares
  slope of the history when some line with that slope has the least such sum.
\<close>

definition squared_error :: "real list \<Rightarrow> real \<Rightarrow> real \<Rightarrow> real" where
  "squared_error ys a b = (\<Sum>i<length ys. (ys ! i - (a + b * real i))\<^sup>2)"

definition ols_slope :: "real list \<Rightarrow> real \<Rightarrow> bool" where
  "ols_slope ys b \<longleftrightarrow> (\<exists>a. \<forall>a' b'. squared_error ys a b \<le> squared_error ys a' b')"

text \<open>The rows that the trajectory query returns for a chronological history of scores.\<close>

definition rows_of_history :: "real list \<Rightarrow> trajectory_row list" where
  "rows_of_history history =
     rev (map (\<lambda>s. \<lparr>row_excellence_score = s, row_trajectory_date = ''''\<rparr>) history)"

definition history_db :: "real list \<Rightarrow> collab" where
  "history_db history = quiet_db\<lparr>execute_query := (\<lambda>_. Inr (rows_of_history history))\<rparr>"

section \<open>Properties\<close>

subsection \<open>Rounding\<close>

lemma round_half_even_cases:
  "round_half_even x = \<lfloor>x\<rfloor> \<and> x - of_int \<lfloor>x\<rfloor> \<le> 1 / 2 \<or>
   round_half_even x = \<lfloor>x\<rfloor> + 1 \<and> 1 / 2 \<le> x - of_int \<lfloor>x\<rfloor>"
  by (auto simp: round_half_even_def Let_def)

lemma round_half_even_close: "\<bar>of_int (round_half_even x) - x\<bar> \<le> 1 / 2"
proof -
  have "of_int \<lfloor>x\<rfloor> \<le> x" "x < of_int \<lfloor>x\<rfloor> + 1" by linarith+
  then show ?thesis using round_half_even_cases[of x] by auto
qed

lemma round_half_even_ge: "of_int k \<le> x \<Longrightarrow> k \<le> round_half_even x"
proof -
  assume "of_int k \<le> x"
  then have "k \<le> \<lfloor>x\<rfloor>" by (simp add: le_floor_iff)
  then show ?thesis using round_half_even_cases[of x] by auto
qed

lemma round_half_even_le: "x \<le> of_int k \<Longrightarrow> round_half_even x \<le> k"
proof -
  assume h: "x \<le> of_int k"
  show ?thesis
  proof (cases "x = of_int k")
    case True
    then show ?thesis by (simp add: round_half_even_def)
  next
    case False
    with h have "x < of_int k" by simp
    then have "\<lfloor>x\<rfloor> < k" by (simp add: floor_less_iff)
    then show ?thesis using round_half_even_cases[of x] by auto
  qed
qed

text \<open>Rounding moves a value by at most half a unit of the last digit kept.\<close>

lemma py_round_close: "\<bar>py_round x n - x\<bar> \<le> 1 / (2 * 10 ^ n)"
proof -
  define p :: real where "p = 10 ^ n"
  define r :: real where "r = of_int (round_half_even (x * p))"
  have p: "0 < p" by (simp add: p_def)
  have close: "\<bar>r - x * p\<bar> \<le> 1 / 2"
    unfolding r_def by (rule round_half_even_close)
  have "py_round x n - x = (r - x * p) / p"
    using p by (simp add: py_round_def r_def p_def field_simps)
  then have "\<bar>py_round x n - x\<bar> = \<bar>r - x * p\<bar> / p"
    using p by simp
  also have "\<dots> \<le> (1 / 2) / p"
    using close p by (rule divide_right_mono[OF _ less_imp_le])
  finally show ?thesis by (simp add: p_def)
qed

text \<open>Rounding never crosses an integer.\<close>

lemma py_round_ge: "of_int k \<le> x \<Longrightarrow> of_int k \<le> py_round x n"
proof -
  assume "of_int k \<le> x"
  then have "of_int (k * 10 ^ n) \<le> x * 10 ^ n" by simp
  then have "k * 10 ^ n \<le> round_half_even (x * 10 ^ n)" by (rule round_half_even_ge)
  then have "(of_int (k * 10 ^ n) :: real) \<le> of_int (round_half_even (x * 10 ^ n))"
    by (simp only: of_int_le_iff)
  then show ?thesis by (simp add: py_round_def le_divide_eq)
qed

lemma py_round_le: "x \<le> of_int k \<Longrightarrow> py_round x n \<le> of_int k"
proof -
  assume "x \<le> of_int k"
  then have "x * 10 ^ n \<le> of_int (k * 10 ^ n)" by simp
  then have "round_half_even (x * 10 ^ n) \<le> k * 10 ^ n" by (rule round_half_even_le)
  then have "(of_int (round_half_even (x * 10 ^ n)) :: real) \<le> of_int (k * 10 ^ n)"
    by (simp only: of_int_le_iff)
  then show ?thesis by (simp add: py_round_def divide_le_eq)
qed

subsection \<open>Bounds of the factors\<close>

lemma academic_le_100: "calculate_academic_performance sd \<le> 100"
  by (simp add: calculate_academic_performance_def Let_def)

lemma research_le_100: "calculate_research_engagement sd \<le> 100"
  by (simp add: calculate_research_engagement_def Let_def)

lemma critical_le_100: "calculate_critical_thinking_score sd \<le> 100"
  by (simp add: calculate_critical_thinking_score_def Let_def)

lemma leadership_le_100: "calculate_leadership_score sd \<le> 100"
  by (simp add: calculate_leadership_score_def Let_def)

lemma innovation_le_100: "calculate_innovation_score sd \<le> 100"
  by (simp add: calculate_innovation_score_def Let_def)

lemma academic_ge_minus_5:
  "0 \<le> dict_get (current_gpa sd) 0 \<Longrightarrow> - 5 \<le> calculate_academic_performance sd"
  by (simp add: calculate_academic_performance_def Let_def min_def)

lemma sum_quality_nonneg:
  "list_all (\<lambda>s. 0 \<le> dict_get (session_quality_score s) 0) ss \<Longrightarrow>
   0 \<le> sum_list (map (\<lambda>s. dict_get (session_quality_score s) 0) ss)"
  by (induction ss) auto

lemma research_ge_20: "valid_metrics sd \<Longrightarrow> 20 \<le> calculate_research_engagement sd"
  unfolding valid_metrics_def calculate_research_engagement_def Let_def
  using sum_quality_nonneg[of "dict_get (mentorship_sessions sd) []"]
  by (auto simp: min_def)

lemma critical_ge_40: "valid_metrics sd \<Longrightarrow> 40 \<le> calculate_critical_thinking_score sd"
  unfolding valid_metrics_def calculate_critical_thinking_score_def Let_def
  by (auto simp: min_def max_def)

lemma leadership_ge_10: "valid_metrics sd \<Longrightarrow> 10 \<le> calculate_leadership_score sd"
  unfolding valid_metrics_def calculate_leadership_score_def Let_def
  by (auto simp: min_def)

lemma innovation_ge_30: "valid_metrics sd \<Longrightarrow> 30 \<le> calculate_innovation_score sd"
  unfolding valid_metrics_def calculate_innovation_score_def Let_def
  by (auto simp: min_def)

lemma level_multiplier_ge_1: "1 \<le> get_level_multiplier l"
  by (simp add: get_level_multiplier_def dict_get_def)

lemma weight_simps:
  "weight ''academic_performance'' = 40 / 100"
  "weight ''research_engagement'' = 25 / 100"
  "weight ''critical_thinking'' = 20 / 100"
  "weight ''leadership_service'' = 10 / 100"
  "weight ''innovation_creativity'' = 5 / 100"
  by (simp_all add: weight_def factor_weights_def dict_get_def)

lemma weighted_total_factors:
  "weighted_total (calculate_excellence_factors sd) =
     calculate_academic_performance sd * (40 / 100) +
     calculate_research_engagement sd * (25 / 100) +
     calculate_critical_thinking_score sd * (20 / 100) +
     calculate_leadership_score sd * (10 / 100) +
     calculate_innovation_score sd * (5 / 100)"
  by (simp add: weighted_total_def calculate_excellence_factors_def weight_simps)

text \<open>With valid metrics the weighted sum is at least \<open>13.5\<close>, the sum of the bases.\<close>

lemma weighted_total_ge:
  assumes "valid_metrics sd"
  shows "27 / 2 \<le> weighted_total (calculate_excellence_factors sd)"
proof -
  have "0 \<le> dict_get (current_gpa sd) 0"
    using assms by (simp add: valid_metrics_def)
  then have "- 5 \<le> calculate_academic_performance sd" by (rule academic_ge_minus_5)
  then show ?thesis
    using research_ge_20[OF assms] critical_ge_40[OF assms] leadership_ge_10[OF assms]
      innovation_ge_30[OF assms]
    by (simp add: weighted_total_factors)
qed

lemma final_score_nonneg:
  assumes "valid_metrics sd"
  shows "0 \<le> min (weighted_total (calculate_excellence_factors sd) * get_level_multiplier l) 100"
proof -
  have "0 \<le> weighted_total (calculate_excellence_factors sd)"
    using weighted_total_ge[OF assms] by simp
  moreover have "0 \<le> get_level_multiplier l"
    using level_multiplier_ge_1[of l] by simp
  ultimately show ?thesis by simp
qed

subsection \<open>Evaluation at the inputs of the theorems\<close>

lemma factors_three_sessions:
  "calculate_excellence_factors three_sessions =
     \<lparr>academic_performance = 0, research_engagement = 20, critical_thinking = 130 / 3,
      leadership_service = 10, innovation_creativity = 30\<rparr>"
  by (simp add: calculate_excellence_factors_def calculate_academic_performance_def
      calculate_research_engagement_def calculate_critical_thinking_score_def
      calculate_leadership_score_def calculate_innovation_score_def
      three_sessions_def empty_dict_def dict_get_def sophistication_scores_def)

lemma three_sessions_nonempty: "three_sessions \<noteq> empty_dict"
  by (simp add: three_sessions_def empty_dict_def)

lemma three_sessions_level: "academic_level three_sessions = None"
  by (simp add: three_sessions_def empty_dict_def)

lemma three_sessions_total:
  "weighted_total (calculate_excellence_factors three_sessions) = 97 / 6"
  by (simp add: factors_three_sessions weighted_total_def weight_simps)

lemma round_97_6: "py_round (97 / 6) 2 = 1617 / 100"
  by (simp add: py_round_def round_half_even_def)

lemma round_factors_three_sessions:
  "round_factors (calculate_excellence_factors three_sessions) =
     \<lparr>academic_performance = 0, research_engagement = 20, critical_thinking = 4333 / 100,
      leadership_service = 10, innovation_creativity = 30\<rparr>"
  by (simp add: factors_three_sessions round_factors_def py_round_def round_half_even_def)

lemma valid_active_student: "valid_metrics active_student"
  by (simp add: valid_metrics_def active_student_def dict_get_def)

lemma active_student_nonempty: "active_student \<noteq> empty_dict"
  by (simp add: active_student_def empty_dict_def)

subsection \<open>The two ways into \<^verbatim>\<open>calculate_excellence_score\<close>\<close>

lemma score_of_nonempty:
  assumes "sd \<noteq> empty_dict"
  shows "calculate_excellence_score env now student_id (Some sd) =
     (case update_excellence_score_in_db env student_id
             (min (weighted_total (calculate_excellence_factors sd) *
                   get_level_multiplier (dict_get (academic_level sd) ''undergraduate'')) 100)
             (calculate_excellence_factors sd) of
        Inl e \<Rightarrow> ScoreError e 0
      | Inr _ \<Rightarrow>
          ScoreResult
            (py_round
               (min (weighted_total (calculate_excellence_factors sd) *
                     get_level_multiplier (dict_get (academic_level sd) ''undergraduate''))
                  100) 2)
            (round_factors (calculate_excellence_factors sd))
            (get_level_multiplier (dict_get (academic_level sd) ''undergraduate''))
            now)"
  using assms by (simp add: calculate_excellence_score_def truthy_def Let_def)

lemma score_of_fetched:
  assumes "\<not> truthy data"
  shows "calculate_excellence_score env now student_id data =
     (case get_comprehensive_student_data env student_id of
        Inl e \<Rightarrow> ScoreError e 0
      | Inr fetched \<Rightarrow>
          if truthy fetched then calculate_excellence_score env now student_id fetched
          else ScoreError ''Student data not found'' 0)"
  using assms
  by (auto simp: calculate_excellence_score_def truthy_def Let_def
      split: sum.splits option.splits)

text \<open>
  The student data a call uses: the data passed in when it is truthy, the data fetched
  otherwise.
\<close>

lemma score_of_used:
  assumes "if truthy data then data = Some sd
           else get_comprehensive_student_data env student_id = Inr (Some sd)"
    and "sd \<noteq> empty_dict"
  shows "calculate_excellence_score env now student_id data =
         calculate_excellence_score env now student_id (Some sd)"
proof (cases "truthy data")
  case True
  with assms(1) show ?thesis by simp
next
  case False
  with assms(1) have "get_comprehensive_student_data env student_id = Inr (Some sd)"
    by simp
  moreover have "truthy (Some sd)" using assms(2) by (simp add: truthy_def)
  ultimately show ?thesis
    by (simp add: score_of_fetched[OF False])
qed

lemma score_result_source:
  assumes "calculate_excellence_score env now student_id data = ScoreResult s f lm t"
  shows "\<exists>sd. sd \<noteq> empty_dict \<and>
           (if truthy data then data = Some sd
            else get_comprehensive_student_data env student_id = Inr (Some sd)) \<and>
           calculate_excellence_score env now student_id (Some sd) = ScoreResult s f lm t"
proof (cases "truthy data")
  case True
  then obtain sd where "data = Some sd" "sd \<noteq> empty_dict"
    by (auto simp: truthy_def split: option.splits)
  with assms True show ?thesis by auto
next
  case False
  from assms score_of_fetched[OF False, of env now student_id]
  obtain fetched where f: "get_comprehensive_student_data env student_id = Inr fetched"
      and t: "truthy fetched"
      and r: "calculate_excellence_score env now student_id fetched = ScoreResult s f lm t"
    by (auto split: sum.splits if_splits)
  from t obtain sd where "fetched = Some sd" "sd \<noteq> empty_dict"
    by (auto simp: truthy_def split: option.splits)
  with f r False show ?thesis by auto
qed

text \<open>
  What holds of the factors and of the returned score for valid metrics: everything
  the range \<open>[0, 100]\<close> asks for, except that academic performance is only bounded
  below by \<open>-5\<close>.
\<close>

lemma factors_range_of_valid_metrics:
  assumes "valid_metrics sd"
  shows "- 5 \<le> academic_performance (calculate_excellence_factors sd) \<and>
         academic_performance (calculate_excellence_factors sd) \<le> 100 \<and>
         20 \<le> research_engagement (calculate_excellence_factors sd) \<and>
         research_engagement (calculate_excellence_factors sd) \<le> 100 \<and>
         40 \<le> critical_thinking (calculate_excellence_factors sd) \<and>
         critical_thinking (calculate_excellence_factors sd) \<le> 100 \<and>
         10 \<le> leadership_service (calculate_excellence_factors sd) \<and>
         leadership_service (calculate_excellence_factors sd) \<le> 100 \<and>
         30 \<le> innovation_creativity (calculate_excellence_factors sd) \<and>
         innovation_creativity (calculate_excellence_factors sd) \<le> 100"
proof -
  have "0 \<le> dict_get (current_gpa sd) 0"
    using assms by (simp add: valid_metrics_def)
  then have "- 5 \<le> calculate_academic_performance sd" by (rule academic_ge_minus_5)
  then show ?thesis
    using research_ge_20[OF assms] critical_ge_40[OF assms] leadership_ge_10[OF assms]
      innovation_ge_30[OF assms] academic_le_100[of sd] research_le_100[of sd]
      critical_le_100[of sd] leadership_le_100[of sd] innovation_le_100[of sd]
    by (simp add: calculate_excellence_factors_def)
qed

lemma returned_score_range_of_valid_metrics:
  assumes "valid_metrics sd" and "sd \<noteq> empty_dict"
    and "calculate_excellence_score env now student_id (Some sd) = ScoreResult s f lm t"
  shows "0 \<le> s \<and> s \<le> 100"
proof -
  define final where
    "final = min (weighted_total (calculate_excellence_factors sd) *
                  get_level_multiplier (dict_get (academic_level sd) ''undergraduate'')) 100"
  have "0 \<le> final" unfolding final_def by (rule final_score_nonneg[OF assms(1)])
  then have lo: "0 \<le> py_round final 2" using py_round_ge[of 0 final 2] by simp
  have "final \<le> 100" by (simp add: final_def)
  then have hi: "py_round final 2 \<le> 100" using py_round_le[of final 100 2] by simp
  from assms(3) score_of_nonempty[OF assms(2), of env now student_id]
  have "s = py_round final 2"
    by (auto simp: final_def split: sum.splits)
  with lo hi show ?thesis by simp
qed

lemma not_truthy_None: "\<not> truthy None"
  by (simp add: truthy_def)

lemma fetch_three_sessions:
  "get_comprehensive_student_data three_sessions_db student_id = Inr (Some three_sessions)"
  "get_comprehensive_student_data three_sessions_db_write_raises student_id =
     Inr (Some three_sessions)"
  "get_comprehensive_student_data three_sessions_db_write_fails_silently student_id =
     Inr (Some three_sessions)"
  by (simp_all add: three_sessions_db_def three_sessions_db_write_raises_def
      three_sessions_db_write_fails_silently_def)

lemma write_three_sessions:
  "update_excellence_score_in_db three_sessions_db = (\<lambda>_ _ _. Inr True)"
  "update_excellence_score_in_db three_sessions_db_write_raises =
     (\<lambda>_ _ _. Inl ''connection lost'')"
  "update_excellence_score_in_db three_sessions_db_write_fails_silently =
     (\<lambda>_ _ _. Inr False)"
  by (simp_all add: three_sessions_db_def three_sessions_db_write_raises_def
      three_sessions_db_write_fails_silently_def db_write_raises_def
      db_write_fails_silently_def quiet_db_def)

lemma score_three_sessions:
  "update_excellence_score_in_db env = (\<lambda>_ _ _. Inr ok) \<Longrightarrow>
   calculate_excellence_score env now student_id (Some three_sessions) =
     ScoreResult (1617 / 100)
       \<lparr>academic_performance = 0, research_engagement = 20, critical_thinking = 4333 / 100,
        leadership_service = 10, innovation_creativity = 30\<rparr> 1 now"
  by (simp add: score_of_nonempty[OF three_sessions_nonempty] three_sessions_total
      three_sessions_level get_level_multiplier_def dict_get_def round_97_6
      round_factors_three_sessions)

lemma valid_declining_zero_gpa: "valid_metrics declining_zero_gpa"
  by (simp add: valid_metrics_def declining_zero_gpa_def empty_dict_def dict_get_def)

subsection \<open>Claims about the score\<close>

text \<open>
  C1. The claim: for valid metrics every factor and the final score lie in \<open>[0, 100]\<close>,
  and the academic performance factor is never negative, not even with a grade point
  average of 0, a declining trend, no honors courses and no achievements. At exactly
  that input, which is valid, the code returns \<open>-5\<close>: the trend penalty is subtracted
  from a base of 0 and the result is only capped from above, although the docstring of
  \<^verbatim>\<open>_calculate_academic_performance\<close> promises a factor in 0-100. The rest of the
  claim holds (lemmas \<open>factors_range_of_valid_metrics\<close> and
  \<open>returned_score_range_of_valid_metrics\<close>).
\<close>

theorem academic_performance_negative_at_zero_gpa_declining:
  "calculate_excellence_factors declining_zero_gpa =
     \<lparr>academic_performance = - 5, research_engagement = 20, critical_thinking = 40,
      leadership_service = 10, innovation_creativity = 30\<rparr>"
  by (simp add: calculate_excellence_factors_def calculate_academic_performance_def
      calculate_research_engagement_def calculate_critical_thinking_score_def
      calculate_leadership_score_def calculate_innovation_score_def
      declining_zero_gpa_def empty_dict_def dict_get_def)

text \<open>
  C10. The claim: for every student input the factors have the lower bounds
  research engagement \<open>\<ge> 20\<close>, critical thinking \<open>\<ge> 40\<close>, leadership and service
  \<open>\<ge> 10\<close>, innovation and creativity \<open>\<ge> 30\<close>. The code adds \<^verbatim>\<open>min(signal * k, cap)\<close> to
  each base, which is negative for a negative signal: all four bounds fail at
  \<open>negative_signals\<close>.
\<close>

theorem base_bounds_fail_at_negative_signals:
  "calculate_research_engagement negative_signals < 20 \<and>
   calculate_critical_thinking_score negative_signals < 40 \<and>
   calculate_leadership_score negative_signals < 10 \<and>
   calculate_innovation_score negative_signals < 30"
  by (simp add: calculate_research_engagement_def calculate_critical_thinking_score_def
      calculate_leadership_score_def calculate_innovation_score_def
      negative_signals_def empty_dict_def dict_get_def)

text \<open>
  C10, amended: for every student input whose numeric signals are non-negative, the
  four factors are at least their base constants 20, 40, 10 and 30.
\<close>

theorem base_bounds_of_valid_metrics:
  assumes "valid_metrics sd"
  shows "20 \<le> calculate_research_engagement sd \<and>
         40 \<le> calculate_critical_thinking_score sd \<and>
         10 \<le> calculate_leadership_score sd \<and>
         30 \<le> calculate_innovation_score sd"
  using research_ge_20[OF assms] critical_ge_40[OF assms] leadership_ge_10[OF assms]
    innovation_ge_30[OF assms]
  by simp

theorem base_bounds_of_valid_metrics_witness:
  "valid_metrics active_student \<and>
   20 \<le> calculate_research_engagement active_student \<and>
   40 \<le> calculate_critical_thinking_score active_student \<and>
   10 \<le> calculate_leadership_score active_student \<and>
   30 \<le> calculate_innovation_score active_student"
  using base_bounds_of_valid_metrics[OF valid_active_student] valid_active_student
  by simp

text \<open>
  C3. The claim: the score that \<^verbatim>\<open>calculate_excellence_score\<close> returns equals
  \<open>min(100, weighted sum \<sqdot> level multiplier)\<close>. The method returns
  \<^verbatim>\<open>round(final_score, 2)\<close>: for three sessions of sophistication basic, scholar, scholar
  the weighted sum is \<open>97/6 = 16.1666...\<close> and the returned score is \<open>16.17\<close>.
\<close>

theorem returned_score_differs_from_weighted_sum:
  "get_excellence_score
     (calculate_excellence_score quiet_db ''2026-01-01T00:00:00'' ''s1'' (Some three_sessions))
   \<noteq> min 100
       ((calculate_academic_performance three_sessions * (40 / 100) +
         calculate_research_engagement three_sessions * (25 / 100) +
         calculate_critical_thinking_score three_sessions * (20 / 100) +
         calculate_leadership_score three_sessions * (10 / 100) +
         calculate_innovation_score three_sessions * (5 / 100)) *
        get_level_multiplier ''undergraduate'')"
proof -
  have "get_excellence_score
     (calculate_excellence_score quiet_db ''2026-01-01T00:00:00'' ''s1'' (Some three_sessions))
     = 1617 / 100"
    by (simp add: calculate_excellence_score_def truthy_def three_sessions_nonempty
        three_sessions_total three_sessions_level get_level_multiplier_def quiet_db_def
        get_excellence_score_def round_97_6 dict_get_def)
  moreover have
    "(calculate_academic_performance three_sessions * (40 / 100) +
      calculate_research_engagement three_sessions * (25 / 100) +
      calculate_critical_thinking_score three_sessions * (20 / 100) +
      calculate_leadership_score three_sessions * (10 / 100) +
      calculate_innovation_score three_sessions * (5 / 100)) = 97 / 6"
    using three_sessions_total by (simp add: weighted_total_factors)
  ultimately show ?thesis
    by (simp add: get_level_multiplier_def dict_get_def)
qed

text \<open>
  C3, amended: whenever \<^verbatim>\<open>calculate_excellence_score\<close> returns a result, its score
  is \<open>min(100, (academic_performance \<sqdot> 0.40 + research_engagement \<sqdot> 0.25 +
  critical_thinking \<sqdot> 0.20 + leadership_service \<sqdot> 0.10 + innovation_creativity \<sqdot> 0.05)
  \<sqdot> level_multiplier)\<close> rounded to two decimals, hence within \<open>0.005\<close> of it; the factors
  are those computed for the student data used (the data passed in or, when none is
  passed, the data fetched): the data passed in when it is truthy, and the data fetched
  only when it is not.
\<close>

theorem returned_score_is_rounded_weighted_sum:
  assumes "calculate_excellence_score env now student_id data = ScoreResult s f lm t"
  shows "\<exists>sd. (if truthy data then data = Some sd
                else get_comprehensive_student_data env student_id = Inr (Some sd)) \<and>
           lm = get_level_multiplier (dict_get (academic_level sd) ''undergraduate'') \<and>
           s = py_round
                 (min 100
                    ((calculate_academic_performance sd * (40 / 100) +
                      calculate_research_engagement sd * (25 / 100) +
                      calculate_critical_thinking_score sd * (20 / 100) +
                      calculate_leadership_score sd * (10 / 100) +
                      calculate_innovation_score sd * (5 / 100)) * lm)) 2 \<and>
           \<bar>s - min 100
                  ((calculate_academic_performance sd * (40 / 100) +
                    calculate_research_engagement sd * (25 / 100) +
                    calculate_critical_thinking_score sd * (20 / 100) +
                    calculate_leadership_score sd * (10 / 100) +
                    calculate_innovation_score sd * (5 / 100)) * lm)\<bar> \<le> 1 / 200"
proof -
  from score_result_source[OF assms] obtain sd where ne: "sd \<noteq> empty_dict"
    and src: "if truthy data then data = Some sd
              else get_comprehensive_student_data env student_id = Inr (Some sd)"
    and run: "calculate_excellence_score env now student_id (Some sd) = ScoreResult s f lm t"
    by blast
  define total where "total = weighted_total (calculate_excellence_factors sd)"
  define m where "m = get_level_multiplier (dict_get (academic_level sd) ''undergraduate'')"
  from run score_of_nonempty[OF ne, of env now student_id]
  have lm: "lm = m" and s: "s = py_round (min (total * m) 100) 2"
    by (auto simp: total_def m_def split: sum.splits)
  have close: "\<bar>py_round (min (total * m) 100) 2 - min (total * m) 100\<bar> \<le> 1 / 200"
    using py_round_close[of "min (total * m) 100" 2] by simp
  have total: "total =
      calculate_academic_performance sd * (40 / 100) +
      calculate_research_engagement sd * (25 / 100) +
      calculate_critical_thinking_score sd * (20 / 100) +
      calculate_leadership_score sd * (10 / 100) +
      calculate_innovation_score sd * (5 / 100)"
    by (simp add: total_def weighted_total_factors)
  have "lm = get_level_multiplier (dict_get (academic_level sd) ''undergraduate'')"
    using lm by (simp add: m_def)
  moreover have "s = py_round (min 100 (total * lm)) 2"
    using s lm by (simp add: min.commute)
  moreover have "\<bar>s - min 100 (total * lm)\<bar> \<le> 1 / 200"
    using close s lm by (simp add: min.commute)
  ultimately show ?thesis
    using src unfolding total by blast
qed

theorem returned_score_is_rounded_weighted_sum_witness:
  "calculate_excellence_score quiet_db ''2026-01-01T00:00:00'' ''s1'' (Some three_sessions) =
     ScoreResult (1617 / 100)
       \<lparr>academic_performance = 0, research_engagement = 20, critical_thinking = 4333 / 100,
        leadership_service = 10, innovation_creativity = 30\<rparr> 1 ''2026-01-01T00:00:00'' \<and>
   truthy (Some three_sessions) \<and>
   calculate_excellence_score three_sessions_db ''2026-01-01T00:00:00'' ''s1'' None =
     ScoreResult (1617 / 100)
       \<lparr>academic_performance = 0, research_engagement = 20, critical_thinking = 4333 / 100,
        leadership_service = 10, innovation_creativity = 30\<rparr> 1 ''2026-01-01T00:00:00'' \<and>
   \<not> truthy None \<and>
   get_comprehensive_student_data three_sessions_db ''s1'' = Inr (Some three_sessions) \<and>
   1617 / 100 =
     py_round
       (min 100
          ((calculate_academic_performance three_sessions * (40 / 100) +
            calculate_research_engagement three_sessions * (25 / 100) +
            calculate_critical_thinking_score three_sessions * (20 / 100) +
            calculate_leadership_score three_sessions * (10 / 100) +
            calculate_innovation_score three_sessions * (5 / 100)) * 1)) 2 \<and>
   \<bar>1617 / 100 - min 100
            ((calculate_academic_performance three_sessions * (40 / 100) +
              calculate_research_engagement three_sessions * (25 / 100) +
              calculate_critical_thinking_score three_sessions * (20 / 100) +
              calculate_leadership_score three_sessions * (10 / 100) +
              calculate_innovation_score three_sessions * (5 / 100)) * 1)\<bar> \<le> 1 / 200"
proof -
  have run: "calculate_excellence_score quiet_db ''2026-01-01T00:00:00'' ''s1''
      (Some three_sessions) =
     ScoreResult (1617 / 100)
       \<lparr>academic_performance = 0, research_engagement = 20, critical_thinking = 4333 / 100,
        leadership_service = 10, innovation_creativity = 30\<rparr> 1 ''2026-01-01T00:00:00''"
    by (rule score_three_sessions[of quiet_db True]) (simp add: quiet_db_def)
  have passed: "truthy (Some three_sessions)"
    by (simp add: truthy_def three_sessions_nonempty)
  have db: "get_comprehensive_student_data three_sessions_db ''s1'' =
      Inr (Some three_sessions)"
    by (rule fetch_three_sessions)
  have "calculate_excellence_score three_sessions_db ''2026-01-01T00:00:00'' ''s1''
      (Some three_sessions) =
     ScoreResult (1617 / 100)
       \<lparr>academic_performance = 0, research_engagement = 20, critical_thinking = 4333 / 100,
        leadership_service = 10, innovation_creativity = 30\<rparr> 1 ''2026-01-01T00:00:00''"
    by (rule score_three_sessions[of three_sessions_db True]) (rule write_three_sessions)
  then have fetched: "calculate_excellence_score three_sessions_db ''2026-01-01T00:00:00''
      ''s1'' None =
     ScoreResult (1617 / 100)
       \<lparr>academic_performance = 0, research_engagement = 20, critical_thinking = 4333 / 100,
        leadership_service = 10, innovation_creativity = 30\<rparr> 1 ''2026-01-01T00:00:00''"
    using score_of_used[of None three_sessions three_sessions_db "''s1''"]
      db three_sessions_nonempty not_truthy_None
    by simp
  from returned_score_is_rounded_weighted_sum[OF run] passed
  have one: "1617 / 100 =
     py_round
       (min 100
          ((calculate_academic_performance three_sessions * (40 / 100) +
            calculate_research_engagement three_sessions * (25 / 100) +
            calculate_critical_thinking_score three_sessions * (20 / 100) +
            calculate_leadership_score three_sessions * (10 / 100) +
            calculate_innovation_score three_sessions * (5 / 100)) * 1)) 2"
    by auto
  from returned_score_is_rounded_weighted_sum[OF fetched] not_truthy_None db
  have two: "\<bar>1617 / 100 - min 100
            ((calculate_academic_performance three_sessions * (40 / 100) +
              calculate_research_engagement three_sessions * (25 / 100) +
              calculate_critical_thinking_score three_sessions * (20 / 100) +
              calculate_leadership_score three_sessions * (10 / 100) +
              calculate_innovation_score three_sessions * (5 / 100)) * 1)\<bar> \<le> 1 / 200"
    by auto
  from run passed fetched not_truthy_None db one two show ?thesis by blast
qed

text \<open>
  C2. The claim: when the persistence write fails, \<^verbatim>\<open>calculate_excellence_score\<close>
  still returns the computed result, with a degraded-durability warning. The write
  happens inside the method's \<^verbatim>\<open>try\<close> block: when it raises, the method returns
  \<^verbatim>\<open>{'error': ..., 'score': 0}\<close>; when the helper swallows the failure, the method
  returns the same dictionary as after a successful write, which has no key for a
  warning. Both hold whether the student data is passed in or fetched by the method.
\<close>

theorem persistence_failure_loses_score_or_goes_unnoticed:
  "calculate_excellence_score db_write_raises ''2026-01-01T00:00:00'' ''s1''
     (Some three_sessions) = ScoreError ''connection lost'' 0 \<and>
   calculate_excellence_score db_write_fails_silently ''2026-01-01T00:00:00'' ''s1''
     (Some three_sessions) =
   calculate_excellence_score quiet_db ''2026-01-01T00:00:00'' ''s1'' (Some three_sessions) \<and>
   calculate_excellence_score three_sessions_db_write_raises ''2026-01-01T00:00:00'' ''s1''
     None = ScoreError ''connection lost'' 0 \<and>
   calculate_excellence_score three_sessions_db_write_fails_silently ''2026-01-01T00:00:00''
     ''s1'' None =
   calculate_excellence_score three_sessions_db ''2026-01-01T00:00:00'' ''s1'' None"
  by (simp add: calculate_excellence_score_def truthy_def three_sessions_nonempty
      db_write_raises_def db_write_fails_silently_def quiet_db_def three_sessions_db_def
      three_sessions_db_write_raises_def three_sessions_db_write_fails_silently_def)

text \<open>
  C2, amended: let the student data used by a call be the data passed in when it is
  truthy and the data fetched otherwise, and let it be non-empty. When the persistence
  helper raises, \<^verbatim>\<open>calculate_excellence_score\<close> returns the error dictionary with the
  message of the exception and score 0; when the helper returns, whatever became of
  the write, the method returns the computed result, and nothing in that result tells
  whether the write went through.
\<close>

theorem persistence_outcome_decides_result:
  assumes "if truthy data then data = Some sd
           else get_comprehensive_student_data env student_id = Inr (Some sd)"
    and "sd \<noteq> empty_dict"
  shows "(\<forall>e. update_excellence_score_in_db env student_id
               (min (weighted_total (calculate_excellence_factors sd) *
                     get_level_multiplier (dict_get (academic_level sd) ''undergraduate'')) 100)
               (calculate_excellence_factors sd) = Inl e \<longrightarrow>
              calculate_excellence_score env now student_id data = ScoreError e 0) \<and>
         (\<forall>ok. update_excellence_score_in_db env student_id
               (min (weighted_total (calculate_excellence_factors sd) *
                     get_level_multiplier (dict_get (academic_level sd) ''undergraduate'')) 100)
               (calculate_excellence_factors sd) = Inr ok \<longrightarrow>
              calculate_excellence_score env now student_id data =
                ScoreResult
                  (py_round
                     (min (weighted_total (calculate_excellence_factors sd) *
                           get_level_multiplier (dict_get (academic_level sd) ''undergraduate''))
                        100) 2)
                  (round_factors (calculate_excellence_factors sd))
                  (get_level_multiplier (dict_get (academic_level sd) ''undergraduate''))
                  now)"
  unfolding score_of_used[OF assms, of now]
  using score_of_nonempty[OF assms(2), of env now student_id] by simp

theorem persistence_outcome_decides_result_witness:
  "three_sessions \<noteq> empty_dict \<and>
   truthy (Some three_sessions) \<and>
   calculate_excellence_score db_write_raises ''2026-01-01T00:00:00'' ''s1''
     (Some three_sessions) = ScoreError ''connection lost'' 0 \<and>
   calculate_excellence_score db_write_fails_silently ''2026-01-01T00:00:00'' ''s1''
     (Some three_sessions) =
     ScoreResult (1617 / 100)
       \<lparr>academic_performance = 0, research_engagement = 20, critical_thinking = 4333 / 100,
        leadership_service = 10, innovation_creativity = 30\<rparr> 1 ''2026-01-01T00:00:00'' \<and>
   \<not> truthy None \<and>
   get_comprehensive_student_data three_sessions_db_write_raises ''s1'' =
     Inr (Some three_sessions) \<and>
   calculate_excellence_score three_sessions_db_write_raises ''2026-01-01T00:00:00'' ''s1''
     None = ScoreError ''connection lost'' 0 \<and>
   get_comprehensive_student_data three_sessions_db_write_fails_silently ''s1'' =
     Inr (Some three_sessions) \<and>
   calculate_excellence_score three_sessions_db_write_fails_silently ''2026-01-01T00:00:00''
     ''s1'' None =
     ScoreResult (1617 / 100)
       \<lparr>academic_performance = 0, research_engagement = 20, critical_thinking = 4333 / 100,
        leadership_service = 10, innovation_creativity = 30\<rparr> 1 ''2026-01-01T00:00:00''"
proof -
  have passed: "truthy (Some three_sessions)"
    by (simp add: truthy_def three_sessions_nonempty)
  have p: "if truthy (Some three_sessions) then Some three_sessions = Some three_sessions
           else get_comprehensive_student_data env ''s1'' = Inr (Some three_sessions)"
    for env :: collab
    using passed by simp
  have f1: "if truthy None then None = Some three_sessions
            else get_comprehensive_student_data three_sessions_db_write_raises ''s1'' =
                   Inr (Some three_sessions)"
    by (simp add: not_truthy_None fetch_three_sessions)
  have f2: "if truthy None then None = Some three_sessions
            else get_comprehensive_student_data three_sessions_db_write_fails_silently ''s1'' =
                   Inr (Some three_sessions)"
    by (simp add: not_truthy_None fetch_three_sessions)
  have raises: "calculate_excellence_score db_write_raises ''2026-01-01T00:00:00'' ''s1''
      (Some three_sessions) = ScoreError ''connection lost'' 0"
    by (rule persistence_outcome_decides_result[OF p three_sessions_nonempty,
          THEN conjunct1, rule_format])
       (simp add: db_write_raises_def)
  have "calculate_excellence_score db_write_fails_silently ''2026-01-01T00:00:00'' ''s1''
      (Some three_sessions) =
      ScoreResult
        (py_round
           (min (weighted_total (calculate_excellence_factors three_sessions) *
                 get_level_multiplier
                   (dict_get (academic_level three_sessions) ''undergraduate'')) 100) 2)
        (round_factors (calculate_excellence_factors three_sessions))
        (get_level_multiplier (dict_get (academic_level three_sessions) ''undergraduate''))
        ''2026-01-01T00:00:00''"
    by (rule persistence_outcome_decides_result[OF p three_sessions_nonempty,
          THEN conjunct2, rule_format, where ok = False])
       (simp add: db_write_fails_silently_def)
  then have silent: "calculate_excellence_score db_write_fails_silently
      ''2026-01-01T00:00:00'' ''s1'' (Some three_sessions) =
     ScoreResult (1617 / 100)
       \<lparr>academic_performance = 0, research_engagement = 20, critical_thinking = 4333 / 100,
        leadership_service = 10, innovation_creativity = 30\<rparr> 1 ''2026-01-01T00:00:00''"
    by (simp add: three_sessions_total three_sessions_level get_level_multiplier_def
        dict_get_def round_97_6 round_factors_three_sessions)
  have fetch_raises: "calculate_excellence_score three_sessions_db_write_raises
      ''2026-01-01T00:00:00'' ''s1'' None = ScoreError ''connection lost'' 0"
    by (rule persistence_outcome_decides_result[OF f1 three_sessions_nonempty,
          THEN conjunct1, rule_format])
       (simp add: write_three_sessions)
  have "calculate_excellence_score three_sessions_db_write_fails_silently
      ''2026-01-01T00:00:00'' ''s1'' None =
      ScoreResult
        (py_round
           (min (weighted_total (calculate_excellence_factors three_sessions) *
                 get_level_multiplier
                   (dict_get (academic_level three_sessions) ''undergraduate'')) 100) 2)
        (round_factors (calculate_excellence_factors three_sessions))
        (get_level_multiplier (dict_get (academic_level three_sessions) ''undergraduate''))
        ''2026-01-01T00:00:00''"
    by (rule persistence_outcome_decides_result[OF f2 three_sessions_nonempty,
          THEN conjunct2, rule_format, where ok = False])
       (simp add: write_three_sessions)
  then have fetch_silent: "calculate_excellence_score three_sessions_db_write_fails_silently
      ''2026-01-01T00:00:00'' ''s1'' None =
     ScoreResult (1617 / 100)
       \<lparr>academic_performance = 0, research_engagement = 20, critical_thinking = 4333 / 100,
        leadership_service = 10, innovation_creativity = 30\<rparr> 1 ''2026-01-01T00:00:00''"
    by (simp add: three_sessions_total three_sessions_level get_level_multiplier_def
        dict_get_def round_97_6 round_factors_three_sessions)
  from three_sessions_nonempty passed raises silent not_truthy_None fetch_raises fetch_silent
    fetch_three_sessions(2)[of "''s1''"] fetch_three_sessions(3)[of "''s1''"]
  show ?thesis by blast
qed

subsection \<open>Facts about the prediction\<close>

lemma predict_success:
  assumes "predict_distinction_probability env now_score now student_id d = Inr r"
  shows "\<exists>req sd wg we.
     map_of distinction_requirements d = Some req \<and>
     get_comprehensive_student_data env student_id = Inr (Some sd) \<and>
     sd \<noteq> empty_dict \<and>
     excellence_score_min req \<noteq> 0 \<and>
     dict_index (weight_factors req) ''gpa'' = Inr wg \<and>
     dict_index (weight_factors req) ''excellence'' = Inr we \<and>
     probability r =
       py_round
         (min (((if gpa_min req > 0
                 then min (dict_get (current_gpa sd) 0 / gpa_min req) 1 else 1) * wg +
                min (get_excellence_score
                       (calculate_excellence_score env now_score student_id (Some sd)) /
                     excellence_score_min req) 1 * we) * 100 *
               (7 / 10 + analyze_improvement_trajectory env student_id * (3 / 10))) 95) 1 \<and>
     confidence r = py_round (calculate_prediction_confidence sd d) 1 \<and>
     calculated_at r = now"
  using assms unfolding predict_distinction_probability_def Let_def truthy_def
  by (auto split: option.splits sum.splits if_splits)

text \<open>Every entry of the requirement table has positive thresholds and weights that
  are non-negative and sum to 1.\<close>

lemma requirement_table:
  assumes "map_of distinction_requirements d = Some req"
    and "dict_index (weight_factors req) ''gpa'' = Inr wg"
    and "dict_index (weight_factors req) ''excellence'' = Inr we"
  shows "0 < gpa_min req \<and> 0 < excellence_score_min req \<and>
         0 \<le> wg \<and> 0 \<le> we \<and> wg + we = 1"
  using assms
  by (auto simp: distinction_requirements_def dict_index_def split: if_splits)

lemma trajectory_range:
  "0 \<le> analyze_improvement_trajectory env student_id \<and>
   analyze_improvement_trajectory env student_id \<le> 1"
  by (simp add: analyze_improvement_trajectory_def Let_def split: sum.splits)

lemma confidence_range:
  "70 \<le> calculate_prediction_confidence sd d \<and> calculate_prediction_confidence sd d \<le> 95"
  by (simp add: calculate_prediction_confidence_def Let_def)

lemma current_excellence_nonneg:
  assumes "valid_metrics sd" and "sd \<noteq> empty_dict"
  shows "0 \<le> get_excellence_score (calculate_excellence_score env now student_id (Some sd))"
proof -
  have "0 \<le> py_round
               (min (weighted_total (calculate_excellence_factors sd) *
                     get_level_multiplier (dict_get (academic_level sd) ''undergraduate''))
                  100) 2"
    using py_round_ge[of 0, OF _] final_score_nonneg[OF assms(1)] by simp
  then show ?thesis
    by (simp add: score_of_nonempty[OF assms(2)] get_excellence_score_def split: sum.splits)
qed

text \<open>The clock and the writer of predictions do not reach the arithmetic.\<close>

lemma excellence_score_clock:
  "get_excellence_score (calculate_excellence_score env ns student_id data) =
   get_excellence_score (calculate_excellence_score env ns' student_id data)"
  by (simp add: calculate_excellence_score_def get_excellence_score_def Let_def
      split: sum.splits)

lemma score_ignores_store:
  "calculate_excellence_score (env\<lparr>store_prediction_in_db := f\<rparr>) ns student_id data =
   calculate_excellence_score env ns student_id data"
  by (simp add: calculate_excellence_score_def Let_def split: sum.splits)

lemma trajectory_ignores_store:
  "analyze_improvement_trajectory (env\<lparr>store_prediction_in_db := f\<rparr>) student_id =
   analyze_improvement_trajectory env student_id"
  by (simp add: analyze_improvement_trajectory_def Let_def split: sum.splits)

text \<open>
  A prediction is the prediction computed with a writer that always succeeds and an
  empty time stamp, stamped with the clock reading and then handed to the writer.
\<close>

lemma predict_shape:
  "predict_distinction_probability env ns n student_id d =
     (case predict_distinction_probability
             (env\<lparr>store_prediction_in_db := (\<lambda>_ _. Inr True)\<rparr>) ns0 [] student_id d of
        Inl e \<Rightarrow> Inl e
      | Inr r0 \<Rightarrow>
          (case store_prediction_in_db env student_id (r0\<lparr>calculated_at := n\<rparr>) of
             Inl e \<Rightarrow> Inl e
           | Inr _ \<Rightarrow> Inr (r0\<lparr>calculated_at := n\<rparr>)))"
  unfolding predict_distinction_probability_def Let_def score_ignores_store
    trajectory_ignores_store excellence_score_clock[of env ns _ _ ns0]
  by (simp split: option.splits sum.splits)

subsection \<open>Evaluation of predictions\<close>

lemma factors_active_student:
  "calculate_excellence_factors active_student =
     \<lparr>academic_performance = 100, research_engagement = 88, critical_thinking = 62,
      leadership_service = 41, innovation_creativity = 61\<rparr>"
  by (simp add: calculate_excellence_factors_def calculate_academic_performance_def
      calculate_research_engagement_def calculate_critical_thinking_score_def
      calculate_leadership_score_def calculate_innovation_score_def
      active_student_def dict_get_def sophistication_scores_def)

lemma active_student_fields:
  "academic_level active_student = Some ''graduate''"
  "current_gpa active_student = Some (37 / 10)"
  by (simp_all add: active_student_def)

lemma score_active_student:
  "update_excellence_score_in_db env = (\<lambda>_ _ _. Inr True) \<Longrightarrow>
   calculate_excellence_score env ns student_id (Some active_student) =
     ScoreResult 100
       \<lparr>academic_performance = 100, research_engagement = 88, critical_thinking = 62,
        leadership_service = 41, innovation_creativity = 61\<rparr> (13 / 10) ns"
  by (simp add: score_of_nonempty[OF active_student_nonempty] factors_active_student
      weighted_total_def weight_simps active_student_fields dict_get_def
      get_level_multiplier_def round_factors_def py_round_def round_half_even_def)

lemma confidence_active_student: "calculate_prediction_confidence active_student d = 95"
  by (simp add: calculate_prediction_confidence_def active_student_def truthy_num_def
      truthy_list_def dict_get_def)

lemma predict_active_student:
  "predict_distinction_probability active_student_db ns n ''s1'' ''Dean_List'' =
     Inr \<lparr>distinction = ''Dean_List'', probability = 85, confidence = 95,
          current_excellence_score = 100, required_excellence_score = 75,
          current_gpa_out = 37 / 10, required_gpa = 35 / 10, gap = 0,
          improvement_factors = [], estimated_achievement_date = None,
          trajectory_factor = 1 / 2, key_factors = [], calculated_at = n\<rparr>"
  by (simp add: predict_distinction_probability_def distinction_requirements_def
      active_student_db_def quiet_db_def truthy_def active_student_nonempty
      score_active_student get_excellence_score_def active_student_fields dict_get_def
      dict_index_def analyze_improvement_trajectory_def confidence_active_student
      py_round_def round_half_even_def)

lemma negative_gpa_nonempty: "negative_gpa \<noteq> empty_dict"
  by (simp add: negative_gpa_def empty_dict_def)

lemma factors_negative_gpa:
  "calculate_excellence_factors negative_gpa =
     \<lparr>academic_performance = - 25, research_engagement = 20, critical_thinking = 40,
      leadership_service = 10, innovation_creativity = 30\<rparr>"
  by (simp add: calculate_excellence_factors_def calculate_academic_performance_def
      calculate_research_engagement_def calculate_critical_thinking_score_def
      calculate_leadership_score_def calculate_innovation_score_def
      negative_gpa_def empty_dict_def dict_get_def)

lemma negative_gpa_fields:
  "academic_level negative_gpa = None" "current_gpa negative_gpa = Some (- 1)"
  by (simp_all add: negative_gpa_def empty_dict_def)

lemma score_negative_gpa:
  "update_excellence_score_in_db env = (\<lambda>_ _ _. Inr True) \<Longrightarrow>
   get_excellence_score (calculate_excellence_score env ns student_id (Some negative_gpa))
     = 11 / 2"
  by (simp add: score_of_nonempty[OF negative_gpa_nonempty] factors_negative_gpa
      weighted_total_def weight_simps negative_gpa_fields dict_get_def
      get_level_multiplier_def py_round_def round_half_even_def get_excellence_score_def)

lemma confidence_negative_gpa: "calculate_prediction_confidence negative_gpa d = 74"
  by (simp add: calculate_prediction_confidence_def negative_gpa_def empty_dict_def
      truthy_num_def truthy_list_def dict_get_def)

subsection \<open>Claims about the prediction\<close>

text \<open>
  C5. A distinction name that has no entry in the requirement table yields the error
  \<^verbatim>\<open>{'error': 'Unknown distinction: <name>'}\<close>, whatever the database holds: the name
  is looked up before anything else happens and no requirement is substituted.
\<close>

theorem unknown_distinction_yields_error:
  assumes "d \<notin> set (map fst distinction_requirements)"
  shows "predict_distinction_probability env now_score now student_id d =
           Inl (''Unknown distinction: '' @ d)"
proof -
  have "map_of distinction_requirements d = None"
    using assms by (simp add: map_of_eq_None_iff)
  then show ?thesis by (simp add: predict_distinction_probability_def)
qed

theorem unknown_distinction_yields_error_witness:
  "''Nobel_Prize'' \<notin> set (map fst distinction_requirements) \<and>
   predict_distinction_probability active_student_db ''2026-01-01T00:00:00''
     ''2026-01-01T00:00:00'' ''s1'' ''Nobel_Prize'' = Inl ''Unknown distinction: Nobel_Prize''"
proof -
  have h: "''Nobel_Prize'' \<notin> set (map fst distinction_requirements)"
    by (simp add: distinction_requirements_def)
  from unknown_distinction_yields_error[OF h] h show ?thesis by simp
qed

text \<open>
  C6. The claim: whenever the prediction succeeds, probability and confidence lie in
  \<open>[0, 95]\<close>. The code caps both at 95 and has no lower clamp: for a student whose
  stored grade point average is \<open>-1.0\<close> the predicted probability for the Dean's list is
  \<open>-12.1\<close>.
\<close>

theorem probability_negative_at_negative_gpa:
  "predict_distinction_probability negative_gpa_db ''2026-01-01T00:00:00''
     ''2026-01-01T00:00:00'' ''s1'' ''Dean_List'' =
     Inr \<lparr>distinction = ''Dean_List'', probability = - (121 / 10), confidence = 74,
          current_excellence_score = 11 / 2, required_excellence_score = 75,
          current_gpa_out = - 1, required_gpa = 35 / 10, gap = 139 / 2,
          improvement_factors = [], estimated_achievement_date = None,
          trajectory_factor = 1 / 2, key_factors = [],
          calculated_at = ''2026-01-01T00:00:00''\<rparr>"
  by (simp add: predict_distinction_probability_def distinction_requirements_def
      negative_gpa_db_def quiet_db_def truthy_def negative_gpa_nonempty
      score_negative_gpa negative_gpa_fields dict_get_def
      dict_index_def analyze_improvement_trajectory_def confidence_negative_gpa
      py_round_def round_half_even_def)

text \<open>
  C6, amended: whenever the prediction succeeds, the probability is at most 95 and
  the confidence lies in \<open>[70, 95]\<close>; the probability is at least 0 when the numeric
  signals of the student are non-negative.
\<close>

theorem prediction_bounds:
  assumes "predict_distinction_probability env now_score now student_id d = Inr r"
  shows "probability r \<le> 95 \<and> 70 \<le> confidence r \<and> confidence r \<le> 95 \<and>
         (\<forall>sd. get_comprehensive_student_data env student_id = Inr (Some sd) \<longrightarrow>
               valid_metrics sd \<longrightarrow> 0 \<le> probability r)"
proof -
  from predict_success[OF assms] obtain req sd wg we where
    req: "map_of distinction_requirements d = Some req"
    and sd: "get_comprehensive_student_data env student_id = Inr (Some sd)"
    and ne: "sd \<noteq> empty_dict"
    and wg: "dict_index (weight_factors req) ''gpa'' = Inr wg"
    and we: "dict_index (weight_factors req) ''excellence'' = Inr we"
    and p: "probability r =
       py_round
         (min (((if gpa_min req > 0
                 then min (dict_get (current_gpa sd) 0 / gpa_min req) 1 else 1) * wg +
                min (get_excellence_score
                       (calculate_excellence_score env now_score student_id (Some sd)) /
                     excellence_score_min req) 1 * we) * 100 *
               (7 / 10 + analyze_improvement_trajectory env student_id * (3 / 10))) 95) 1"
    and c: "confidence r = py_round (calculate_prediction_confidence sd d) 1"
    by blast
  from requirement_table[OF req wg we] have tab:
    "0 < gpa_min req" "0 < excellence_score_min req" "0 \<le> wg" "0 \<le> we" by simp_all
  have up: "probability r \<le> 95"
    unfolding p using py_round_le[of _ 95 1] by simp
  have c1: "70 \<le> confidence r"
    unfolding c using py_round_ge[of 70 _ 1] confidence_range[of sd d] by simp
  have c2: "confidence r \<le> 95"
    unfolding c using py_round_le[of _ 95 1] confidence_range[of sd d] by simp
  have low: "0 \<le> probability r" if v: "valid_metrics sd"
  proof -
    have g: "0 \<le> dict_get (current_gpa sd) 0" using v by (simp add: valid_metrics_def)
    have gf: "0 \<le> (if gpa_min req > 0
                    then min (dict_get (current_gpa sd) 0 / gpa_min req) 1 else 1)"
      using g tab by simp
    have ef: "0 \<le> min (get_excellence_score
                       (calculate_excellence_score env now_score student_id (Some sd)) /
                     excellence_score_min req) 1"
      using current_excellence_nonneg[OF v ne, of env now_score student_id] tab by simp
    have tf: "0 \<le> 7 / 10 + analyze_improvement_trajectory env student_id * (3 / 10)"
      using trajectory_range[of env student_id] by simp
    have "0 \<le> ((if gpa_min req > 0
                 then min (dict_get (current_gpa sd) 0 / gpa_min req) 1 else 1) * wg +
                min (get_excellence_score
                       (calculate_excellence_score env now_score student_id (Some sd)) /
                     excellence_score_min req) 1 * we) * 100 *
               (7 / 10 + analyze_improvement_trajectory env student_id * (3 / 10))"
    proof (rule mult_nonneg_nonneg[OF mult_nonneg_nonneg[OF add_nonneg_nonneg]])
      show "0 \<le> (if gpa_min req > 0
                  then min (dict_get (current_gpa sd) 0 / gpa_min req) 1 else 1) * wg"
        using gf tab(3) by (rule mult_nonneg_nonneg)
      show "0 \<le> min (get_excellence_score
                       (calculate_excellence_score env now_score student_id (Some sd)) /
                     excellence_score_min req) 1 * we"
        using ef tab(4) by (rule mult_nonneg_nonneg)
      show "(0::real) \<le> 100" by simp
      show "0 \<le> 7 / 10 + analyze_improvement_trajectory env student_id * (3 / 10)"
        by (rule tf)
    qed
    then show ?thesis
      unfolding p using py_round_ge[of 0 _ 1] by simp
  qed
  show ?thesis using up c1 c2 low sd by auto
qed

theorem prediction_bounds_witness:
  "predict_distinction_probability active_student_db ''2026-01-01T00:00:00''
     ''2026-01-01T00:00:00'' ''s1'' ''Dean_List'' = Inr sample_prediction \<and>
   get_comprehensive_student_data active_student_db ''s1'' = Inr (Some active_student) \<and>
   valid_metrics active_student \<and>
   0 \<le> probability sample_prediction \<and> probability sample_prediction \<le> 95 \<and>
   70 \<le> confidence sample_prediction \<and> confidence sample_prediction \<le> 95"
proof -
  have run: "predict_distinction_probability active_student_db ''2026-01-01T00:00:00''
      ''2026-01-01T00:00:00'' ''s1'' ''Dean_List'' = Inr sample_prediction"
    by (simp add: predict_active_student sample_prediction_def)
  have db: "get_comprehensive_student_data active_student_db ''s1'' =
      Inr (Some active_student)"
    by (simp add: active_student_db_def)
  from prediction_bounds[OF run] run db valid_active_student show ?thesis
    by blast
qed

text \<open>
  C7. The claim: two calls with identical frozen inputs return bit-identical results.
  Every result carries \<^verbatim>\<open>'calculated_at': datetime.now().isoformat()\<close>: the same
  request, against the same database, one second later returns a different value.
\<close>

theorem prediction_differs_between_calls:
  "predict_distinction_probability active_student_db ''2026-01-01T00:00:00''
     ''2026-01-01T00:00:00'' ''s1'' ''Dean_List'' \<noteq>
   predict_distinction_probability active_student_db ''2026-01-01T00:00:01''
     ''2026-01-01T00:00:01'' ''s1'' ''Dean_List''"
  by (simp add: predict_active_student)

text \<open>
  C7, amended: two calls for the same student and distinction, with the same outcomes
  of the collaborators' calls, return the same error or results that agree in every
  field but \<^verbatim>\<open>calculated_at\<close>, which is the clock reading of each call. (The writer of
  predictions receives the time stamp; its outcome is taken not to depend on it.)
\<close>

theorem prediction_deterministic_up_to_clock:
  assumes "\<And>r c. store_prediction_in_db env student_id (r\<lparr>calculated_at := c\<rparr>) =
                  store_prediction_in_db env student_id r"
  shows "predict_distinction_probability env now_score2 now2 student_id d =
         map_sum id (\<lambda>r. r\<lparr>calculated_at := now2\<rparr>)
           (predict_distinction_probability env now_score1 now1 student_id d)"
  unfolding predict_shape[of env now_score2 now2 student_id d now_score1]
    predict_shape[of env now_score1 now1 student_id d now_score1]
  by (simp add: assms split: sum.splits)

theorem prediction_deterministic_up_to_clock_witness:
  "(\<forall>r c. store_prediction_in_db active_student_db ''s1'' (r\<lparr>calculated_at := c\<rparr>) =
          store_prediction_in_db active_student_db ''s1'' r) \<and>
   predict_distinction_probability active_student_db ''2026-01-01T00:00:01''
     ''2026-01-01T00:00:01'' ''s1'' ''Dean_List'' =
   map_sum id (\<lambda>r. r\<lparr>calculated_at := ''2026-01-01T00:00:01''\<rparr>)
     (predict_distinction_probability active_student_db ''2026-01-01T00:00:00''
        ''2026-01-01T00:00:00'' ''s1'' ''Dean_List'')"
proof -
  have h: "\<And>r c. store_prediction_in_db active_student_db ''s1'' (r\<lparr>calculated_at := c\<rparr>) =
                  store_prediction_in_db active_student_db ''s1'' r"
    by (simp add: active_student_db_def quiet_db_def)
  from prediction_deterministic_up_to_clock[OF h] h show ?thesis by blast
qed

subsection \<open>Claims about the cache\<close>

text \<open>
  C9. When the cache is disabled (no backend) or a cache operation raises (the Redis
  read, the decoding of the cached text, the encoding of the prediction, the Redis
  write), the read returns \<^verbatim>\<open>None\<close> and the write changes nothing; neither method lets
  an exception out, whatever the backend does.
\<close>

theorem cache_failure_is_miss_and_noop:
  "(\<not> cache_enabled self \<or>
    (\<exists>e. redis_get (client self) r (cache_key student_id d) = Inl e) \<or>
    (\<exists>bytes e. redis_get (client self) r (cache_key student_id d) = Inr (Some bytes) \<and>
               json_loads (client self) bytes = Inl e)
    \<longrightarrow> get_cached_prediction self r student_id d = Inr None) \<and>
   (\<not> cache_enabled self \<or>
    (\<exists>e. json_dumps (client self) prediction = Inl e) \<or>
    (\<exists>text e. json_dumps (client self) prediction = Inr text \<and>
              redis_setex (client self) r (cache_key student_id d) ttl text = Inl e)
    \<longrightarrow> cache_prediction self r student_id d prediction ttl = Inr r) \<and>
   (\<exists>v. get_cached_prediction self r student_id d = Inr v) \<and>
   (\<exists>r'. cache_prediction self r student_id d prediction ttl = Inr r')"
  by (auto simp: get_cached_prediction_def cache_prediction_def try_except_def
      split: sum.splits option.splits)

theorem cache_failure_is_miss_and_noop_witness:
  "redis_get redis_unreachable [] (cache_key ''s1'' ''Dean_List'') = Inl ''Connection refused'' \<and>
   redis_setex redis_unreachable [] (cache_key ''s1'' ''Dean_List'') 600 ''{}'' =
     Inl ''Connection refused'' \<and>
   get_cached_prediction \<lparr>cache_enabled = True, client = redis_unreachable\<rparr> []
     ''s1'' ''Dean_List'' = Inr None \<and>
   cache_prediction \<lparr>cache_enabled = True, client = redis_unreachable\<rparr> []
     ''s1'' ''Dean_List'' sample_prediction 600 = Inr []"
  using cache_failure_is_miss_and_noop[of "\<lparr>cache_enabled = True, client = redis_unreachable\<rparr>"
      "[]" "''s1''" "''Dean_List''" sample_prediction 600]
  by (simp add: redis_unreachable_def)

subsection \<open>The least-squares line\<close>

text \<open>Sums over the abscissae \<open>0, ..., n - 1\<close>; the determinant of the normal equations
  is \<open>n\<^sup>2 (n\<^sup>2 - 1) / 12\<close>.\<close>

lemma sum_index: "(\<Sum>i<n. real i) = real n * (real n - 1) / 2"
  by (induction n) (simp_all add: field_simps)

lemma sum_index_sq: "(\<Sum>i<n. real i * real i) = real n * (real n - 1) * (2 * real n - 1) / 6"
  by (induction n) (simp_all add: field_simps)

lemma denominator_pos:
  assumes "2 \<le> n"
  shows "0 < real n * (\<Sum>i<n. real i * real i) - (\<Sum>i<n. real i) * (\<Sum>i<n. real i)"
proof -
  have "real n * (\<Sum>i<n. real i * real i) - (\<Sum>i<n. real i) * (\<Sum>i<n. real i)
      = real n * real n * (real n - 1) * (real n + 1) / 12"
    by (simp add: sum_index sum_index_sq field_simps)
  moreover have "0 < real n * real n * (real n - 1) * (real n + 1) / 12"
    using assms by simp
  ultimately show ?thesis by simp
qed

text \<open>The list sums of \<open>polyfit1\<close> as indexed sums.\<close>

lemma sum_list_nth: "sum_list ys = (\<Sum>i<length ys. ys ! i)"
  by (simp add: sum_list_sum_nth atLeast0LessThan)

lemma sum_list_arange: "sum_list (np_arange n) = (\<Sum>i<n. real i)"
  by (simp add: sum_list_nth np_arange_def)

lemma sum_list_arange_times:
  "sum_list (map2 (*) (np_arange (length ys)) ys) = (\<Sum>i<length ys. real i * ys ! i)"
  by (simp add: sum_list_nth np_arange_def)

lemma sum_list_arange_sq:
  "sum_list (map2 (*) (np_arange n) (np_arange n)) = (\<Sum>i<n. real i * real i)"
  by (simp add: sum_list_nth np_arange_def)

lemma length_np_arange: "length (np_arange n) = n"
  by (simp add: np_arange_def)

lemma polyfit1_arange:
  "polyfit1 (np_arange (length ys)) ys =
     (let n = real (length ys);
          sx = (\<Sum>i<length ys. real i);
          sy = (\<Sum>i<length ys. ys ! i);
          sxy = (\<Sum>i<length ys. real i * ys ! i);
          sxx = (\<Sum>i<length ys. real i * real i);
          slope = (n * sxy - sx * sy) / (n * sxx - sx * sx)
      in [slope, (sy - slope * sx) / n])"
  by (simp add: polyfit1_def Let_def sum_list_arange sum_list_arange_times sum_list_arange_sq
      sum_list_nth[of ys] length_np_arange)


text \<open>The fitted line satisfies the two normal equations: its residuals sum to zero and
  are orthogonal to the abscissae.\<close>

lemma normal_equations:
  fixes f :: "nat \<Rightarrow> real" and n :: nat
  defines "sx \<equiv> (\<Sum>i<n. real i)" and "sy \<equiv> (\<Sum>i<n. f i)"
    and "sxy \<equiv> (\<Sum>i<n. real i * f i)" and "sxx \<equiv> (\<Sum>i<n. real i * real i)"
  defines "b \<equiv> (real n * sxy - sx * sy) / (real n * sxx - sx * sx)"
  defines "a \<equiv> (sy - b * sx) / real n"
  assumes n: "0 < n" and d: "real n * sxx - sx * sx \<noteq> 0"
  shows "(\<Sum>i<n. f i - (a + b * real i)) = 0"
    and "(\<Sum>i<n. (f i - (a + b * real i)) * real i) = 0"
proof -
  have "(\<Sum>i<n. f i - (a + b * real i)) = sy - real n * a - b * sx"
    by (simp add: sum_subtractf sum.distrib sum_distrib_left sx_def sy_def)
  also have "\<dots> = 0" using n by (simp add: a_def)
  finally show "(\<Sum>i<n. f i - (a + b * real i)) = 0" .
  have "(\<Sum>i<n. (f i - (a + b * real i)) * real i) = sxy - a * sx - b * sxx"
    by (simp add: algebra_simps sum_subtractf sum.distrib sum_distrib_left
        sx_def sxy_def sxx_def)
  also have "\<dots> = ((real n * sxy - sx * sy) - b * (real n * sxx - sx * sx)) / real n"
    using n by (simp add: a_def field_simps)
  also have "\<dots> = 0" using d by (simp add: b_def)
  finally show "(\<Sum>i<n. (f i - (a + b * real i)) * real i) = 0" .
qed


lemma polyfit_residuals:
  assumes "2 \<le> length ys"
  defines "c \<equiv> polyfit1 (np_arange (length ys)) ys"
  shows "(\<Sum>i<length ys. ys ! i - (c ! 1 + c ! 0 * real i)) = 0"
    and "(\<Sum>i<length ys. (ys ! i - (c ! 1 + c ! 0 * real i)) * real i) = 0"
proof -
  have n: "0 < length ys" using assms(1) by auto
  have d: "real (length ys) * (\<Sum>i<length ys. real i * real i) -
           (\<Sum>i<length ys. real i) * (\<Sum>i<length ys. real i) \<noteq> 0"
    using denominator_pos[OF assms(1)] by simp
  show "(\<Sum>i<length ys. ys ! i - (c ! 1 + c ! 0 * real i)) = 0"
    using normal_equations(1)[OF n d, of "(!) ys"]
    by (simp add: c_def polyfit1_arange Let_def)
  show "(\<Sum>i<length ys. (ys ! i - (c ! 1 + c ! 0 * real i)) * real i) = 0"
    using normal_equations(2)[OF n d, of "(!) ys"]
    by (simp add: c_def polyfit1_arange Let_def)
qed

lemma squared_error_split:
  assumes "2 \<le> length ys"
  defines "c \<equiv> polyfit1 (np_arange (length ys)) ys"
  shows "squared_error ys a b =
         squared_error ys (c ! 1) (c ! 0) +
         (\<Sum>i<length ys. ((c ! 1 - a) + (c ! 0 - b) * real i)\<^sup>2)"
proof -
  define r where "r = (\<lambda>i. ys ! i - (c ! 1 + c ! 0 * real i))"
  define u where "u = c ! 1 - a"
  define v where "v = c ! 0 - b"
  have r0: "(\<Sum>i<length ys. r i) = 0" and r1: "(\<Sum>i<length ys. r i * real i) = 0"
    using polyfit_residuals[OF assms(1)] by (simp_all add: r_def c_def)
  have "squared_error ys a b = (\<Sum>i<length ys. (r i + (u + v * real i))\<^sup>2)"
    by (simp add: squared_error_def r_def u_def v_def algebra_simps)
  also have "\<dots> = (\<Sum>i<length ys. (r i)\<^sup>2 + (2 * u * r i + 2 * v * (r i * real i))
                      + (u + v * real i)\<^sup>2)"
    by (rule sum.cong) (simp_all add: power2_eq_square algebra_simps)
  also have "\<dots> = (\<Sum>i<length ys. (r i)\<^sup>2) +
      (2 * u * (\<Sum>i<length ys. r i) + 2 * v * (\<Sum>i<length ys. r i * real i)) +
      (\<Sum>i<length ys. (u + v * real i)\<^sup>2)"
    by (simp add: sum.distrib sum_distrib_left)
  also have "\<dots> = squared_error ys (c ! 1) (c ! 0) + (\<Sum>i<length ys. (u + v * real i)\<^sup>2)"
    unfolding r0 r1 by (simp add: squared_error_def r_def)
  finally show ?thesis by (simp add: u_def v_def)
qed

lemma polyfit_least_squares:
  assumes "2 \<le> length ys"
  shows "squared_error ys (polyfit1 (np_arange (length ys)) ys ! 1)
           (polyfit1 (np_arange (length ys)) ys ! 0) \<le> squared_error ys a b"
  unfolding squared_error_split[OF assms, of a b]
  by (simp add: sum_nonneg)

lemma least_squares_unique:
  assumes "2 \<le> length ys"
    and "\<forall>a' b'. squared_error ys a b \<le> squared_error ys a' b'"
  shows "b = polyfit1 (np_arange (length ys)) ys ! 0"
proof -
  define c where "c = polyfit1 (np_arange (length ys)) ys"
  have "squared_error ys a b \<le> squared_error ys (c ! 1) (c ! 0)"
    using assms(2) by blast
  then have "(\<Sum>i<length ys. ((c ! 1 - a) + (c ! 0 - b) * real i)\<^sup>2) \<le> 0"
    unfolding squared_error_split[OF assms(1), of a b] c_def by simp
  moreover have "0 \<le> (\<Sum>i<length ys. ((c ! 1 - a) + (c ! 0 - b) * real i)\<^sup>2)"
    by (simp add: sum_nonneg)
  ultimately have "(\<Sum>i<length ys. ((c ! 1 - a) + (c ! 0 - b) * real i)\<^sup>2) = 0"
    by simp
  then have z: "\<forall>i\<in>{..<length ys}. ((c ! 1 - a) + (c ! 0 - b) * real i)\<^sup>2 = 0"
    by (subst (asm) sum_nonneg_eq_0_iff) simp_all
  have "0 < length ys" "1 < length ys" using assms(1) by auto
  with z have "((c ! 1 - a) + (c ! 0 - b) * real 0)\<^sup>2 = 0"
    and "((c ! 1 - a) + (c ! 0 - b) * real 1)\<^sup>2 = 0"
    by blast+
  then have "c ! 0 - b = 0" by simp
  then show ?thesis by (simp add: c_def)
qed

lemma ols_slope_iff:
  assumes "2 \<le> length ys"
  shows "ols_slope ys b \<longleftrightarrow> b = polyfit1 (np_arange (length ys)) ys ! 0"
proof
  assume "ols_slope ys b"
  then obtain a where "\<forall>a' b'. squared_error ys a b \<le> squared_error ys a' b'"
    by (auto simp: ols_slope_def)
  then show "b = polyfit1 (np_arange (length ys)) ys ! 0"
    by (rule least_squares_unique[OF assms])
next
  assume "b = polyfit1 (np_arange (length ys)) ys ! 0"
  then show "ols_slope ys b"
    unfolding ols_slope_def using polyfit_least_squares[OF assms] by blast
qed


lemma numerator_pos:
  fixes f :: "nat \<Rightarrow> real" and n :: nat
  assumes n: "2 \<le> n" and mono: "\<And>i j. i < j \<Longrightarrow> j < n \<Longrightarrow> f i < f j"
  shows "0 < real n * (\<Sum>i<n. real i * f i) - (\<Sum>i<n. real i) * (\<Sum>i<n. f i)"
proof -
  define m where "m = (real n - 1) / 2"
  define k where "k = (n - 1) div 2"
  define c where "c = f k"
  have kn: "k < n - 1" using n by (simp add: k_def)
  have "2 * k \<le> n - 1" "n - 1 < 2 * k + 2" by (simp_all add: k_def)
  then have "real (2 * k) \<le> real (n - 1)" "real (n - 1) < real (2 * k + 2)"
    by (simp_all only: of_nat_le_iff of_nat_less_iff)
  then have km: "real k \<le> m" "m < real k + 1"
    using n by (simp_all add: m_def)
  have sx: "(\<Sum>i<n. real i) = real n * m"
    by (simp add: sum_index m_def)
  define A where "A = (\<Sum>i<n. (real i - m) * (f i - c))"
  define sxy where "sxy = (\<Sum>i<n. real i * f i)"
  define sy where "sy = (\<Sum>i<n. f i)"
  have "A = sxy - m * sy - c * ((\<Sum>i<n. real i) - real n * m)"
    by (simp add: A_def sxy_def sy_def algebra_simps sum_subtractf sum.distrib
        sum_distrib_left)
  then have A: "A = sxy - m * sy" by (simp add: sx)
  have "real n * sxy - (real n * m) * sy = real n * A"
    unfolding A by (simp add: algebra_simps)
  then have eq: "real n * (\<Sum>i<n. real i * f i) - (\<Sum>i<n. real i) * (\<Sum>i<n. f i) =
                 real n * (\<Sum>i<n. (real i - m) * (f i - c))"
    by (simp only: sx A_def sxy_def sy_def)
  have nonneg: "0 \<le> (real i - m) * (f i - c)" if "i < n" for i
  proof -
    consider "i < k" | "i = k" | "k < i" by linarith
    then show ?thesis
    proof cases
      case 1
      then have "f i < c" using mono[of i k] kn by (simp add: c_def)
      moreover have "real i < m" using 1 km by simp
      ultimately show ?thesis by (simp add: mult_nonpos_nonpos)
    next
      case 2
      then show ?thesis by (simp add: c_def)
    next
      case 3
      then have "c < f i" using mono[of k i] that by (simp add: c_def)
      moreover have "real k + 1 \<le> real i" using 3 by (simp add: Suc_le_eq flip: of_nat_Suc)
      then have "m < real i" using km by simp
      ultimately show ?thesis by simp
    qed
  qed
  have last: "0 < (real (n - 1) - m) * (f (n - 1) - c)"
  proof -
    have "c < f (n - 1)" using mono[of k "n - 1"] kn n by (simp add: c_def)
    moreover have "real k + 1 \<le> real (n - 1)"
      using kn by (simp add: Suc_le_eq flip: of_nat_Suc)
    then have "m < real (n - 1)" using km by simp
    ultimately show ?thesis by simp
  qed
  have "0 < (\<Sum>i<n. (real i - m) * (f i - c))"
  proof (rule sum_pos2[of _ "n - 1"])
    show "finite {..<n}" by simp
    show "n - 1 \<in> {..<n}" using n by simp
    show "0 < (real (n - 1) - m) * (f (n - 1) - c)" by (rule last)
    show "0 \<le> (real i - m) * (f i - c)" if "i \<in> {..<n}" for i
      using that nonneg by simp
  qed
  moreover have "0 < real n" using n by simp
  ultimately show ?thesis unfolding eq by simp
qed

lemma slope_formula:
  "polyfit1 (np_arange (length ys)) ys ! 0 =
     (real (length ys) * (\<Sum>i<length ys. real i * ys ! i) -
      (\<Sum>i<length ys. real i) * (\<Sum>i<length ys. ys ! i)) /
     (real (length ys) * (\<Sum>i<length ys. real i * real i) -
      (\<Sum>i<length ys. real i) * (\<Sum>i<length ys. real i))"
  by (simp add: polyfit1_arange Let_def)

lemma slope_pos_of_increasing:
  assumes "2 \<le> length ys" and "sorted_wrt (<) ys"
  shows "0 < polyfit1 (np_arange (length ys)) ys ! 0"
proof -
  have "0 < real (length ys) * (\<Sum>i<length ys. real i * ys ! i) -
      (\<Sum>i<length ys. real i) * (\<Sum>i<length ys. ys ! i)"
    using assms(2) by (intro numerator_pos[OF assms(1)]) (simp add: sorted_wrt_iff_nth_less)
  then show ?thesis
    unfolding slope_formula using denominator_pos[OF assms(1)]
    by (rule divide_pos_pos)
qed

lemma slope_neg_of_decreasing:
  assumes "2 \<le> length ys" and "sorted_wrt (>) ys"
  shows "polyfit1 (np_arange (length ys)) ys ! 0 < 0"
proof -
  have "0 < real (length ys) * (\<Sum>i<length ys. real i * (- (ys ! i))) -
      (\<Sum>i<length ys. real i) * (\<Sum>i<length ys. - (ys ! i))"
    using assms(2) by (intro numerator_pos[OF assms(1)]) (simp add: sorted_wrt_iff_nth_less)
  then have "real (length ys) * (\<Sum>i<length ys. real i * ys ! i) -
      (\<Sum>i<length ys. real i) * (\<Sum>i<length ys. ys ! i) < 0"
    by (simp add: sum_negf)
  then show ?thesis
    unfolding slope_formula using denominator_pos[OF assms(1)]
    by (rule divide_neg_pos)
qed

lemma analyze_unfold:
  assumes "execute_query env student_id = Inr rows"
  shows "analyze_improvement_trajectory env student_id =
     (if length rows < 2 then 1 / 2
      else max 0 (min 1 (1 / 2 +
             polyfit1 (np_arange (length (rev (map row_excellence_score rows))))
               (rev (map row_excellence_score rows)) ! 0 / 20)))"
  using assms by (simp add: analyze_improvement_trajectory_def Let_def)

subsection \<open>Claims about the trajectory\<close>

lemma history_of_rows: "rev (map row_excellence_score (rows_of_history h)) = h"
  by (simp add: rows_of_history_def rev_map o_def)

lemma query_history_db: "execute_query (history_db h) student_id = Inr (rows_of_history h)"
  by (simp add: history_db_def)

lemma length_rows_of_history: "length (rows_of_history h) = length h"
  by (simp add: rows_of_history_def)

lemma analyze_history_db:
  "analyze_improvement_trajectory (history_db h) student_id =
     (if length h < 2 then 1 / 2
      else max 0 (min 1 (1 / 2 + polyfit1 (np_arange (length h)) h ! 0 / 20)))"
  by (simp add: analyze_unfold[OF query_history_db] history_of_rows length_rows_of_history)

lemma analyze_rising:
  "analyze_improvement_trajectory (history_db [60, 65, 70, 75, 80]) ''s1'' = 3 / 4"
  by (simp add: analyze_history_db polyfit1_def np_arange_def)

lemma analyze_falling:
  "analyze_improvement_trajectory (history_db [80, 70, 60]) ''s1'' = 0"
  by (simp add: analyze_history_db polyfit1_def np_arange_def)

text \<open>
  C4. With fewer than two points the momentum is exactly \<open>0.5\<close>. With \<open>n \<ge> 2\<close> points
  the history, put in chronological order, has an ordinary-least-squares slope, and
  for every such slope \<open>b\<close> (there is only one) the momentum is
  \<open>clamp(0.5 + b/20, 0, 1)\<close>. The rows are those the query returns, latest first.
\<close>

theorem trajectory_momentum_is_clamped_ols_slope:
  assumes "execute_query env student_id = Inr rows"
  shows "(length rows < 2 \<longrightarrow> analyze_improvement_trajectory env student_id = 1 / 2) \<and>
         (2 \<le> length rows \<longrightarrow>
            (\<exists>b. ols_slope (rev (map row_excellence_score rows)) b) \<and>
            (\<forall>b. ols_slope (rev (map row_excellence_score rows)) b \<longrightarrow>
                 analyze_improvement_trajectory env student_id =
                   max 0 (min 1 (1 / 2 + b / 20))))"
proof (intro conjI impI allI)
  assume "length rows < 2"
  then show "analyze_improvement_trajectory env student_id = 1 / 2"
    by (simp add: analyze_unfold[OF assms])
next
  assume "2 \<le> length rows"
  then have n: "2 \<le> length (rev (map row_excellence_score rows))" by simp
  show "\<exists>b. ols_slope (rev (map row_excellence_score rows)) b"
    using ols_slope_iff[OF n] by blast
next
  fix b
  assume len: "2 \<le> length rows" and b: "ols_slope (rev (map row_excellence_score rows)) b"
  from len have n: "2 \<le> length (rev (map row_excellence_score rows))" by simp
  from b have "b = polyfit1 (np_arange (length (rev (map row_excellence_score rows))))
                     (rev (map row_excellence_score rows)) ! 0"
    by (simp only: ols_slope_iff[OF n])
  then show "analyze_improvement_trajectory env student_id = max 0 (min 1 (1 / 2 + b / 20))"
    using len by (simp add: analyze_unfold[OF assms])
qed

theorem trajectory_momentum_is_clamped_ols_slope_witness:
  "execute_query (history_db [60]) ''s1'' = Inr (rows_of_history [60]) \<and>
   length (rows_of_history [60]) < 2 \<and>
   analyze_improvement_trajectory (history_db [60]) ''s1'' = 1 / 2 \<and>
   execute_query (history_db [60, 65, 70, 75, 80]) ''s1'' =
     Inr (rows_of_history [60, 65, 70, 75, 80]) \<and>
   2 \<le> length (rows_of_history [60, 65, 70, 75, 80]) \<and>
   analyze_improvement_trajectory (history_db [60, 65, 70, 75, 80]) ''s1'' = 3 / 4 \<and>
   (\<exists>b. ols_slope [60, 65, 70, 75, 80] b \<and> 3 / 4 = max 0 (min 1 (1 / 2 + b / 20)))"
proof -
  have short: "length (rows_of_history [60]) < 2"
    and long: "2 \<le> length (rows_of_history [60, 65, 70, 75, 80])"
    by (simp_all add: length_rows_of_history)
  from trajectory_momentum_is_clamped_ols_slope[OF query_history_db, of "[60]" "''s1''"] short
  have one: "analyze_improvement_trajectory (history_db [60]) ''s1'' = 1 / 2"
    by blast
  from trajectory_momentum_is_clamped_ols_slope[OF query_history_db,
      of "[60, 65, 70, 75, 80]" "''s1''"] long
  have "\<exists>b. ols_slope [60, 65, 70, 75, 80] b \<and>
          analyze_improvement_trajectory (history_db [60, 65, 70, 75, 80]) ''s1'' =
            max 0 (min 1 (1 / 2 + b / 20))"
    unfolding history_of_rows by blast
  then have five: "\<exists>b. ols_slope [60, 65, 70, 75, 80] b \<and>
      3 / 4 = max 0 (min 1 (1 / 2 + b / 20))"
    by (simp only: analyze_rising)
  from short long one five analyze_rising query_history_db show ?thesis by blast
qed

text \<open>
  C8. For a history of at least two points, a strictly increasing sequence of scores
  (in chronological order) gives a momentum above \<open>0.5\<close> and a strictly decreasing one
  a momentum below \<open>0.5\<close>.
\<close>

theorem momentum_follows_trend:
  assumes "execute_query env student_id = Inr rows" and "2 \<le> length rows"
  shows "(sorted_wrt (<) (rev (map row_excellence_score rows)) \<longrightarrow>
            1 / 2 < analyze_improvement_trajectory env student_id) \<and>
         (sorted_wrt (>) (rev (map row_excellence_score rows)) \<longrightarrow>
            analyze_improvement_trajectory env student_id < 1 / 2)"
proof (intro conjI impI)
  have n: "2 \<le> length (rev (map row_excellence_score rows))" using assms(2) by simp
  {
    assume "sorted_wrt (<) (rev (map row_excellence_score rows))"
    from slope_pos_of_increasing[OF n this]
    show "1 / 2 < analyze_improvement_trajectory env student_id"
      using assms(2) by (simp add: analyze_unfold[OF assms(1)] max_def min_def)
  }
  {
    assume "sorted_wrt (>) (rev (map row_excellence_score rows))"
    from slope_neg_of_decreasing[OF n this]
    show "analyze_improvement_trajectory env student_id < 1 / 2"
      using assms(2) by (simp add: analyze_unfold[OF assms(1)] max_def min_def)
  }
qed

theorem momentum_follows_trend_witness:
  "2 \<le> length (rows_of_history [60, 65, 70, 75, 80]) \<and>
   sorted_wrt (<) [60, 65, 70, 75, 80 :: real] \<and>
   1 / 2 < analyze_improvement_trajectory (history_db [60, 65, 70, 75, 80]) ''s1'' \<and>
   2 \<le> length (rows_of_history [80, 70, 60]) \<and>
   sorted_wrt (>) [80, 70, 60 :: real] \<and>
   analyze_improvement_trajectory (history_db [80, 70, 60]) ''s1'' < 1 / 2"
proof -
  have up: "2 \<le> length (rows_of_history [60, 65, 70, 75, 80])"
    and down: "2 \<le> length (rows_of_history [80, 70, 60])"
    by (simp_all add: length_rows_of_history)
  have inc: "sorted_wrt (<) [60, 65, 70, 75, 80 :: real]"
    and dec: "sorted_wrt (>) [80, 70, 60 :: real]"
    by simp_all
  from momentum_follows_trend[OF query_history_db up, of "''s1''"] inc
  have rising: "1 / 2 < analyze_improvement_trajectory (history_db [60, 65, 70, 75, 80]) ''s1''"
    unfolding history_of_rows by blast
  from momentum_follows_trend[OF query_history_db down, of "''s1''"] dec
  have falling: "analyze_improvement_trajectory (history_db [80, 70, 60]) ''s1'' < 1 / 2"
    unfolding history_of_rows by blast
  from up down inc dec rising falling show ?thesis by blast
qed

end
